theory Spec2Isabelle
  imports Main
begin

section \<open>The battle state store of BattleGame.jsx\<close>

text \<open>
  A shallow embedding of \<^verbatim>\<open>battleReducer\<close> and of the orchestrator helpers around it
  (the second document of \<^verbatim>\<open>src/frontend/src/components/MobileMenu.jsx\<close>).

  Conventions of the embedding.
  \<^item> JavaScript numbers are modelled as \<open>int\<close>: energies, costs, health and stats are
    integers in the game. On integers \<open>Math.floor(e * 0.1)\<close> is \<open>e div 10\<close> (the double
    nearest to one tenth is \<open>0.1 * (1 + 2^-54)\<close>, and the product rounds back to the
    exact quotient whenever that is an integer), and \<open>Math.floor(m / 10)\<close> is \<open>m div 10\<close>.
  \<^item> A field the source treats as optional (\<open>x || d\<close>, \<open>if (x)\<close>, \<open>!x\<close>) is an
    \<open>option\<close>; a field the source dereferences without a test is required by the type.
  \<^item> The reducer returns \<open>fault + battle_state\<close>. \<open>TypeError\<close> is the exception
    JavaScript raises on reading a property of \<open>null\<close> or \<open>undefined\<close>.
    \<open>CorruptState\<close> marks the places where the source returns normally but stores
    \<open>NaN\<close> or \<open>undefined\<close> in the state, values the data model has no room for.
  \<^item> Console output and the \<open>id\<close> of a log entry (a clock reading) are not part of the
    model. The collaborators of \<^verbatim>\<open>utils/battleCore\<close> are parameters.
\<close>

subsection \<open>Data model\<close>

record battle_stats =
  maxHealth :: int
  physicalAttack :: int
  magicalAttack :: int
  energyCost :: int
  otherStats :: "(string \<times> int) list"

record effect =
  effect_name :: string
  duration :: int
  healthEffect :: int
  statEffect :: "(string \<times> int) list"

record creature =
  creature_id :: string
  species_name :: string
  battleStats :: battle_stats
  currentHealth :: int
  activeEffects :: "effect option list"
  isDefending :: bool

record tool =
  tool_id :: string
  tool_name :: string

record spell =
  spell_id :: string
  spell_name :: string

record per_side =
  player :: int
  enemy :: int

record log_entry =
  entry_turn :: int
  entry_message :: string

record battle_state =
  gameState :: string
  turn :: int
  activePlayer :: string
  difficulty :: string
  playerDeck :: "creature list"
  playerHand :: "creature list"
  playerField :: "creature list"
  playerEnergy :: int
  playerTools :: "tool list"
  playerSpells :: "spell list"
  enemyDeck :: "creature list"
  enemyHand :: "creature list"
  enemyField :: "creature list"
  enemyEnergy :: int
  enemyTools :: "tool list"
  enemySpells :: "spell list"
  battleLog :: "log_entry list"
  consecutiveActions :: per_side
  energyMomentum :: per_side

text \<open>Results of the collaborators, as far as the reducer reads them.\<close>

record attack_result =
  updatedAttacker :: creature
  updatedDefender :: creature

record tool_result =
  updatedCreature :: "creature option"

record spell_result =
  updatedCaster :: "creature option"
  updatedTarget :: "creature option"

text \<open>
  The functions imported from \<^verbatim>\<open>utils/battleCore\<close>. \<open>defendCreature\<close> is called with
  the difficulty by \<open>EXECUTE_AI_ACTION\<close> and without it by \<open>EXECUTE_AI_ACTION_SEQUENCE\<close>.
\<close>

record collaborators =
  processAttack :: "creature \<Rightarrow> creature \<Rightarrow> attack_result"
  defendCreature :: "creature \<Rightarrow> string option \<Rightarrow> creature"
  applyTool :: "creature \<Rightarrow> tool \<Rightarrow> string \<Rightarrow> tool_result option"
  applySpell :: "creature \<Rightarrow> creature \<Rightarrow> spell \<Rightarrow> string \<Rightarrow> spell_result option"

text \<open>An action descriptor returned by the AI policy: every property may be absent.\<close>

record ai_action =
  ai_type :: string
  ai_creature :: "creature option"
  ai_attacker :: "creature option"
  ai_target :: "creature option"
  ai_tool :: "tool option"
  ai_spell :: "spell option"
  ai_caster :: "creature option"
  ai_energyCost :: "int option"

record start_battle =
  sb_playerDeck :: "creature list"
  sb_playerHand :: "creature list"
  sb_playerTools :: "tool list"
  sb_playerSpells :: "spell list"
  sb_enemyDeck :: "creature list"
  sb_enemyHand :: "creature list"
  sb_enemyTools :: "tool list option"
  sb_enemySpells :: "spell list option"
  sb_difficulty :: string

text \<open>
  The actions, one constructor per entry of \<open>ACTIONS\<close>, with the payload the reducer
  reads. \<open>UNRECOGNIZED t\<close> is an action object whose \<open>type\<close> is \<open>t\<close> and matches no
  \<open>case\<close> of the reducer's \<open>switch\<close>.
\<close>

datatype action =
    START_BATTLE start_battle
  | DEPLOY_CREATURE creature "int option"
  | ENEMY_DEPLOY_CREATURE creature "int option"
  | UPDATE_CREATURE bool creature
  | ATTACK attack_result int
  | USE_TOOL "tool_result option" tool bool bool
  | USE_SPELL "spell_result option" spell "int option" bool
  | DEFEND creature
  | DRAW_CARD string
  | REGENERATE_ENERGY int int
  | APPLY_ENERGY_DECAY
  | SET_ACTIVE_PLAYER string
  | INCREMENT_TURN
  | SET_GAME_STATE string
  | APPLY_ONGOING_EFFECTS "creature list option" "creature list option"
  | ADD_LOG string
  | SPEND_ENERGY string int
  | EXECUTE_AI_ACTION ai_action
  | EXECUTE_AI_ACTION_SEQUENCE "ai_action list"
  | COMBO_BONUS string
  | UNRECOGNIZED string

datatype fault = TypeError | CorruptState

subsection \<open>Constants\<close>

definition ATTACK_ENERGY_COST :: int where "ATTACK_ENERGY_COST = 2"
definition DEFEND_ENERGY_COST :: int where "DEFEND_ENERGY_COST = 1"
definition BASE_ENERGY_REGEN :: int where "BASE_ENERGY_REGEN = 3"
definition SPELL_ENERGY_COST :: int where "SPELL_ENERGY_COST = 4"
definition TOOL_ENERGY_COST :: int where "TOOL_ENERGY_COST = 0"
definition MAX_ENERGY :: int where "MAX_ENERGY = 15"

text \<open>The values of the \<open>ACTIONS\<close> table.\<close>

definition ACTIONS :: "string list" where
  "ACTIONS =
    [''START_BATTLE'', ''DEPLOY_CREATURE'', ''ENEMY_DEPLOY_CREATURE'', ''UPDATE_CREATURE'',
     ''ATTACK'', ''USE_TOOL'', ''USE_SPELL'', ''DEFEND'', ''DRAW_CARD'',
     ''REGENERATE_ENERGY'', ''APPLY_ENERGY_DECAY'', ''SET_ACTIVE_PLAYER'',
     ''INCREMENT_TURN'', ''SET_GAME_STATE'', ''APPLY_ONGOING_EFFECTS'', ''ADD_LOG'',
     ''SPEND_ENERGY'', ''EXECUTE_AI_ACTION'', ''EXECUTE_AI_ACTION_SEQUENCE'',
     ''COMBO_BONUS'']"

text \<open>The \<open>type\<close> property of an action.\<close>

fun action_type :: "action \<Rightarrow> string" where
  "action_type (START_BATTLE _) = ''START_BATTLE''"
| "action_type (DEPLOY_CREATURE _ _) = ''DEPLOY_CREATURE''"
| "action_type (ENEMY_DEPLOY_CREATURE _ _) = ''ENEMY_DEPLOY_CREATURE''"
| "action_type (UPDATE_CREATURE _ _) = ''UPDATE_CREATURE''"
| "action_type (ATTACK _ _) = ''ATTACK''"
| "action_type (USE_TOOL _ _ _ _) = ''USE_TOOL''"
| "action_type (USE_SPELL _ _ _ _) = ''USE_SPELL''"
| "action_type (DEFEND _) = ''DEFEND''"
| "action_type (DRAW_CARD _) = ''DRAW_CARD''"
| "action_type (REGENERATE_ENERGY _ _) = ''REGENERATE_ENERGY''"
| "action_type APPLY_ENERGY_DECAY = ''APPLY_ENERGY_DECAY''"
| "action_type (SET_ACTIVE_PLAYER _) = ''SET_ACTIVE_PLAYER''"
| "action_type INCREMENT_TURN = ''INCREMENT_TURN''"
| "action_type (SET_GAME_STATE _) = ''SET_GAME_STATE''"
| "action_type (APPLY_ONGOING_EFFECTS _ _) = ''APPLY_ONGOING_EFFECTS''"
| "action_type (ADD_LOG _) = ''ADD_LOG''"
| "action_type (SPEND_ENERGY _ _) = ''SPEND_ENERGY''"
| "action_type (EXECUTE_AI_ACTION _) = ''EXECUTE_AI_ACTION''"
| "action_type (EXECUTE_AI_ACTION_SEQUENCE _) = ''EXECUTE_AI_ACTION_SEQUENCE''"
| "action_type (COMBO_BONUS _) = ''COMBO_BONUS''"
| "action_type (UNRECOGNIZED t) = t"

subsection \<open>JavaScript idioms\<close>

text \<open>\<open>x || d\<close> on a number that may be absent: \<open>undefined\<close> and \<open>0\<close> are falsy.\<close>

fun jsOr :: "int option \<Rightarrow> int \<Rightarrow> int" where
  "jsOr None d = d"
| "jsOr (Some n) d = (if n \<noteq> 0 then n else d)"

text \<open>\<open>xs.map(c => c.id === u.id ? u : c)\<close>\<close>

definition replaceById :: "creature \<Rightarrow> creature list \<Rightarrow> creature list" where
  "replaceById u xs = map (\<lambda>c. if creature_id c = creature_id u then u else c) xs"

text \<open>\<open>xs.some(c => c.id === u.id)\<close>\<close>

definition someId :: "creature \<Rightarrow> creature list \<Rightarrow> bool" where
  "someId u xs = list_ex (\<lambda>c. creature_id c = creature_id u) xs"

text \<open>\<open>xs.filter(c => c.currentHealth > 0)\<close>\<close>

definition alive :: "creature list \<Rightarrow> creature list" where
  "alive xs = filter (\<lambda>c. 0 < currentHealth c) xs"

text \<open>\<open>xs.filter(c => c.id !== u.id)\<close>\<close>

definition withoutId :: "creature \<Rightarrow> creature list \<Rightarrow> creature list" where
  "withoutId u xs = filter (\<lambda>c. creature_id c \<noteq> creature_id u) xs"

text \<open>\<open>d.charAt(0).toUpperCase() + d.slice(1)\<close>, on ASCII letters.\<close>

definition toUpperCase :: "char \<Rightarrow> char" where
  "toUpperCase c =
     (if 97 \<le> (of_char c :: nat) \<and> (of_char c :: nat) \<le> 122
      then char_of ((of_char c :: nat) - 32) else c)"

fun capitalize :: "string \<Rightarrow> string" where
  "capitalize [] = []"
| "capitalize (c # cs) = toUpperCase c # cs"

subsection \<open>The reducer, case by case\<close>

definition on_START_BATTLE :: "battle_state \<Rightarrow> start_battle \<Rightarrow> battle_state" where
  "on_START_BATTLE s a =
     s\<lparr>gameState := ''battle'',
       playerDeck := sb_playerDeck a,
       playerHand := sb_playerHand a,
       playerField := [],
       enemyDeck := sb_enemyDeck a,
       enemyHand := sb_enemyHand a,
       enemyField := [],
       playerEnergy := 10,
       enemyEnergy := 10,
       turn := 1,
       activePlayer := ''player'',
       battleLog := [\<lparr>entry_turn = 1,
         entry_message = ''Battle started! Difficulty: '' @ capitalize (sb_difficulty a)
           @ '' - Prepare for intense combat!''\<rparr>],
       playerTools := sb_playerTools a,
       playerSpells := sb_playerSpells a,
       enemyTools := (case sb_enemyTools a of None \<Rightarrow> [] | Some ts \<Rightarrow> ts),
       enemySpells := (case sb_enemySpells a of None \<Rightarrow> [] | Some ss \<Rightarrow> ss),
       difficulty := sb_difficulty a,
       consecutiveActions := \<lparr>player = 0, enemy = 0\<rparr>,
       energyMomentum := \<lparr>player = 0, enemy = 0\<rparr>\<rparr>"

text \<open>
  \<open>action.energyCost || action.creature.battleStats.energyCost || 3\<close>, the cost both
  deploy cases charge.
\<close>

definition deployEnergyCost :: "creature \<Rightarrow> int option \<Rightarrow> int" where
  "deployEnergyCost c ec = jsOr ec (jsOr (Some (energyCost (battleStats c))) 3)"

definition on_DEPLOY_CREATURE :: "battle_state \<Rightarrow> creature \<Rightarrow> int option \<Rightarrow> battle_state" where
  "on_DEPLOY_CREATURE s c ec =
     (let cost = deployEnergyCost c ec in
      if playerEnergy s < cost then s
      else s\<lparr>playerHand := withoutId c (playerHand s),
             playerField := playerField s @ [c],
             playerEnergy := max 0 (playerEnergy s - cost),
             consecutiveActions :=
               (consecutiveActions s)\<lparr>player := player (consecutiveActions s) + 1\<rparr>,
             energyMomentum :=
               (energyMomentum s)\<lparr>player := player (energyMomentum s) + cost\<rparr>\<rparr>)"

definition on_ENEMY_DEPLOY_CREATURE ::
  "battle_state \<Rightarrow> creature \<Rightarrow> int option \<Rightarrow> battle_state" where
  "on_ENEMY_DEPLOY_CREATURE s c ec =
     (let cost = deployEnergyCost c ec in
      if enemyEnergy s < cost then s
      else if someId c (enemyField s) then s
      else s\<lparr>enemyHand := withoutId c (enemyHand s),
             enemyField := enemyField s @ [c],
             enemyEnergy := max 0 (enemyEnergy s - cost),
             consecutiveActions :=
               (consecutiveActions s)\<lparr>enemy := enemy (consecutiveActions s) + 1\<rparr>,
             energyMomentum :=
               (energyMomentum s)\<lparr>enemy := enemy (energyMomentum s) + cost\<rparr>\<rparr>)"

definition on_UPDATE_CREATURE :: "battle_state \<Rightarrow> bool \<Rightarrow> creature \<Rightarrow> battle_state" where
  "on_UPDATE_CREATURE s isPlayer c =
     (if isPlayer then s\<lparr>playerField := replaceById c (playerField s)\<rparr>
      else s\<lparr>enemyField := replaceById c (enemyField s)\<rparr>)"

text \<open>
  \<open>ATTACK\<close>. The \<open>comboMultiplier\<close> the source computes first is never read and is
  left out.
\<close>

definition on_ATTACK :: "battle_state \<Rightarrow> attack_result \<Rightarrow> int \<Rightarrow> battle_state" where
  "on_ATTACK s attackResult cost =
     (let isPlayerAttacker = someId (updatedAttacker attackResult) (playerField s);
          isPlayerDefender = someId (updatedDefender attackResult) (playerField s)
      in
      if isPlayerAttacker \<and> playerEnergy s < cost then s
      else if \<not> isPlayerAttacker \<and> enemyEnergy s < cost then s
      else
        s\<lparr>playerEnergy :=
            (if isPlayerAttacker then max 0 (playerEnergy s - cost) else playerEnergy s),
          enemyEnergy :=
            (if \<not> isPlayerAttacker then max 0 (enemyEnergy s - cost) else enemyEnergy s),
          playerField := alive (map (\<lambda>c.
            if isPlayerAttacker \<and> creature_id c = creature_id (updatedAttacker attackResult)
            then updatedAttacker attackResult
            else if isPlayerDefender
                    \<and> creature_id c = creature_id (updatedDefender attackResult)
            then updatedDefender attackResult
            else c) (playerField s)),
          enemyField := alive (map (\<lambda>c.
            if \<not> isPlayerAttacker \<and> creature_id c = creature_id (updatedAttacker attackResult)
            then updatedAttacker attackResult
            else if \<not> isPlayerDefender
                    \<and> creature_id c = creature_id (updatedDefender attackResult)
            then updatedDefender attackResult
            else c) (enemyField s)),
          consecutiveActions :=
            (if isPlayerAttacker
             then (consecutiveActions s)\<lparr>player := player (consecutiveActions s) + 1\<rparr>
             else (consecutiveActions s)\<lparr>enemy := enemy (consecutiveActions s) + 1\<rparr>),
          energyMomentum :=
            (if isPlayerAttacker
             then (energyMomentum s)\<lparr>player := player (energyMomentum s) + cost\<rparr>
             else (energyMomentum s)\<lparr>enemy := enemy (energyMomentum s) + cost\<rparr>)\<rparr>)"

text \<open>
  \<open>USE_TOOL\<close>. The first statement of the case evaluates
  \<open>action.result.updatedCreature.id\<close> inside the callback of \<open>playerField.some\<close>, so it
  runs (once per element visited) as soon as the player field is not empty, before the
  guard on \<open>action.result\<close> is reached.
\<close>

definition isPlayerToolTarget :: "battle_state \<Rightarrow> tool_result option \<Rightarrow> fault + bool" where
  "isPlayerToolTarget s result =
     (if playerField s = [] then Inr False
      else case result of
             None \<Rightarrow> Inl TypeError
           | Some r \<Rightarrow>
               (case updatedCreature r of
                  None \<Rightarrow> Inl TypeError
                | Some u \<Rightarrow> Inr (someId u (playerField s))))"

definition on_USE_TOOL ::
  "battle_state \<Rightarrow> tool_result option \<Rightarrow> tool \<Rightarrow> bool \<Rightarrow> bool \<Rightarrow> fault + battle_state" where
  "on_USE_TOOL s result usedTool isPlayerTool isEnemyTool =
     (case isPlayerToolTarget s result of
        Inl e \<Rightarrow> Inl e
      | Inr isTarget \<Rightarrow>
          (case result of
             None \<Rightarrow> Inr s
           | Some r \<Rightarrow>
               (case updatedCreature r of
                  None \<Rightarrow> Inr s
                | Some u \<Rightarrow>
                    Inr (s\<lparr>playerField :=
                             (if isTarget then replaceById u (playerField s) else playerField s),
                           enemyField :=
                             (if \<not> isTarget then replaceById u (enemyField s) else enemyField s),
                           playerTools :=
                             (if isPlayerTool
                              then filter (\<lambda>t. tool_id t \<noteq> tool_id usedTool) (playerTools s)
                              else playerTools s),
                           enemyTools :=
                             (if isEnemyTool
                              then filter (\<lambda>t. tool_id t \<noteq> tool_id usedTool) (enemyTools s)
                              else enemyTools s),
                           consecutiveActions :=
                             (if isPlayerTool
                              then (consecutiveActions s)
                                     \<lparr>player := player (consecutiveActions s) + 1\<rparr>
                              else (consecutiveActions s)
                                     \<lparr>enemy := enemy (consecutiveActions s) + 1\<rparr>)\<rparr>))))"

definition on_USE_SPELL ::
  "battle_state \<Rightarrow> spell_result option \<Rightarrow> spell \<Rightarrow> int option \<Rightarrow> bool \<Rightarrow> battle_state" where
  "on_USE_SPELL s spellResult sp ec isEnemySpell =
     (case spellResult of
        None \<Rightarrow> s
      | Some r \<Rightarrow>
     (case updatedCaster r of
        None \<Rightarrow> s
      | Some caster \<Rightarrow>
     (case updatedTarget r of
        None \<Rightarrow> s
      | Some target \<Rightarrow>
          (let isPlayerCaster = someId caster (playerField s);
               isPlayerTarget = someId target (playerField s);
               cost = jsOr ec SPELL_ENERGY_COST
           in
           if isPlayerCaster \<and> playerEnergy s < cost then s
           else if \<not> isPlayerCaster \<and> enemyEnergy s < cost then s
           else
             s\<lparr>playerField := alive (map (\<lambda>c.
                 if isPlayerCaster \<and> creature_id c = creature_id caster then caster
                 else if isPlayerTarget \<and> creature_id c = creature_id target then target
                 else c) (playerField s)),
               enemyField := alive (map (\<lambda>c.
                 if \<not> isPlayerCaster \<and> creature_id c = creature_id caster then caster
                 else if \<not> isPlayerTarget \<and> creature_id c = creature_id target then target
                 else c) (enemyField s)),
               playerEnergy :=
                 (if isPlayerCaster then max 0 (playerEnergy s - cost) else playerEnergy s),
               enemyEnergy :=
                 (if \<not> isPlayerCaster then max 0 (enemyEnergy s - cost) else enemyEnergy s),
               playerSpells :=
                 (if isPlayerCaster
                  then filter (\<lambda>x. spell_id x \<noteq> spell_id sp) (playerSpells s)
                  else playerSpells s),
               enemySpells :=
                 (if isEnemySpell
                  then filter (\<lambda>x. spell_id x \<noteq> spell_id sp) (enemySpells s)
                  else enemySpells s),
               consecutiveActions :=
                 (if isPlayerCaster
                  then (consecutiveActions s)\<lparr>player := player (consecutiveActions s) + 1\<rparr>
                  else (consecutiveActions s)\<lparr>enemy := enemy (consecutiveActions s) + 1\<rparr>),
               energyMomentum :=
                 (if isPlayerCaster
                  then (energyMomentum s)\<lparr>player := player (energyMomentum s) + cost\<rparr>
                  else (energyMomentum s)\<lparr>enemy := enemy (energyMomentum s) + cost\<rparr>)\<rparr>))))"

definition on_DEFEND :: "battle_state \<Rightarrow> creature \<Rightarrow> battle_state" where
  "on_DEFEND s u =
     (let isPlayerDefending = someId u (playerField s) in
      if isPlayerDefending \<and> playerEnergy s < DEFEND_ENERGY_COST then s
      else if \<not> isPlayerDefending \<and> enemyEnergy s < DEFEND_ENERGY_COST then s
      else
        s\<lparr>playerEnergy :=
            (if isPlayerDefending then max 0 (playerEnergy s - DEFEND_ENERGY_COST)
             else playerEnergy s),
          enemyEnergy :=
            (if \<not> isPlayerDefending then max 0 (enemyEnergy s - DEFEND_ENERGY_COST)
             else enemyEnergy s),
          playerField :=
            (if isPlayerDefending then replaceById u (playerField s) else playerField s),
          enemyField :=
            (if \<not> isPlayerDefending then replaceById u (enemyField s) else enemyField s),
          consecutiveActions :=
            (if isPlayerDefending
             then (consecutiveActions s)\<lparr>player := player (consecutiveActions s) + 1\<rparr>
             else (consecutiveActions s)\<lparr>enemy := enemy (consecutiveActions s) + 1\<rparr>)\<rparr>)"

definition on_SPEND_ENERGY :: "battle_state \<Rightarrow> string \<Rightarrow> int \<Rightarrow> battle_state" where
  "on_SPEND_ENERGY s who amount =
     (if who = ''player'' then s\<lparr>playerEnergy := max 0 (playerEnergy s - amount)\<rparr>
      else s\<lparr>enemyEnergy := max 0 (enemyEnergy s - amount)\<rparr>)"

definition on_DRAW_CARD :: "battle_state \<Rightarrow> string \<Rightarrow> battle_state" where
  "on_DRAW_CARD s who =
     (if who = ''player'' then
        (case playerDeck s of
           [] \<Rightarrow> s
         | drawnCard # rest \<Rightarrow>
             s\<lparr>playerHand := playerHand s @ [drawnCard], playerDeck := rest\<rparr>)
      else
        (case enemyDeck s of
           [] \<Rightarrow> s
         | drawnCard # rest \<Rightarrow>
             s\<lparr>enemyHand := enemyHand s @ [drawnCard], enemyDeck := rest\<rparr>))"

definition on_REGENERATE_ENERGY :: "battle_state \<Rightarrow> int \<Rightarrow> int \<Rightarrow> battle_state" where
  "on_REGENERATE_ENERGY s playerRegen enemyRegen =
     (let playerMomentumBonus = player (energyMomentum s) div 10;
          enemyMomentumBonus = enemy (energyMomentum s) div 10
      in s\<lparr>playerEnergy := min MAX_ENERGY (playerEnergy s + playerRegen + playerMomentumBonus),
           enemyEnergy := min MAX_ENERGY (enemyEnergy s + enemyRegen + enemyMomentumBonus),
           energyMomentum := \<lparr>player = 0, enemy = 0\<rparr>\<rparr>)"

text \<open>\<open>Math.floor(energy * ENERGY_DECAY_RATE)\<close> with \<open>ENERGY_DECAY_RATE = 0.1\<close>.\<close>

definition decayOf :: "int \<Rightarrow> int" where
  "decayOf e = e div 10"

definition on_APPLY_ENERGY_DECAY :: "battle_state \<Rightarrow> battle_state" where
  "on_APPLY_ENERGY_DECAY s =
     (let playerDecay = decayOf (playerEnergy s);
          enemyDecay = decayOf (enemyEnergy s)
      in s\<lparr>playerEnergy := max 0 (playerEnergy s - playerDecay),
           enemyEnergy := max 0 (enemyEnergy s - enemyDecay)\<rparr>)"

definition on_SET_ACTIVE_PLAYER :: "battle_state \<Rightarrow> string \<Rightarrow> battle_state" where
  "on_SET_ACTIVE_PLAYER s who =
     s\<lparr>activePlayer := who, consecutiveActions := \<lparr>player = 0, enemy = 0\<rparr>\<rparr>"

definition on_INCREMENT_TURN :: "battle_state \<Rightarrow> battle_state" where
  "on_INCREMENT_TURN s = s\<lparr>turn := turn s + 1\<rparr>"

definition on_SET_GAME_STATE :: "battle_state \<Rightarrow> string \<Rightarrow> battle_state" where
  "on_SET_GAME_STATE s g = s\<lparr>gameState := g\<rparr>"

definition on_ADD_LOG :: "battle_state \<Rightarrow> string \<Rightarrow> battle_state" where
  "on_ADD_LOG s m = s\<lparr>battleLog := battleLog s @ [\<lparr>entry_turn = turn s, entry_message = m\<rparr>]\<rparr>"

text \<open>
  \<open>APPLY_ONGOING_EFFECTS\<close>. \<open>addStat\<close> is
  \<open>if (battleStats[stat] !== undefined) battleStats[stat] += value\<close>: the four stats
  the source reads by name are always present, any other stat only when listed.
\<close>

definition addStat :: "string \<Rightarrow> int \<Rightarrow> battle_stats \<Rightarrow> battle_stats" where
  "addStat stat v bs =
     (if stat = ''maxHealth'' then bs\<lparr>maxHealth := maxHealth bs + v\<rparr>
      else if stat = ''physicalAttack'' then bs\<lparr>physicalAttack := physicalAttack bs + v\<rparr>
      else if stat = ''magicalAttack'' then bs\<lparr>magicalAttack := magicalAttack bs + v\<rparr>
      else if stat = ''energyCost'' then bs\<lparr>energyCost := energyCost bs + v\<rparr>
      else bs\<lparr>otherStats :=
             map (\<lambda>(k, x). if k = stat then (k, x + v) else (k, x)) (otherStats bs)\<rparr>)"

text \<open>\<open>Object.entries(effect.statEffect).forEach(...)\<close>\<close>

definition applyStatEffect :: "(string \<times> int) list \<Rightarrow> battle_stats \<Rightarrow> battle_stats" where
  "applyStatEffect entries bs = foldl (\<lambda>b (stat, v). addStat stat v b) bs entries"

text \<open>
  The body of \<open>activeEffects.forEach\<close>, on the pair of the creature being updated and
  \<open>remainingEffects\<close>. A \<open>null\<close> entry is skipped. The messages handed to
  \<open>action.addLog\<close> do not reach the returned state and are left out. The source adds
  the stat deltas in place, on the \<open>battleStats\<close> object the copied creature shares
  with the creature of the input state; the model gives the creature that is returned.
  It takes every entry of a field to be an object of its own with a \<open>battleStats\<close>
  object of its own, as \<open>initializeBattle\<close> creates them: were one object to stand
  twice on the fields, the source would add the deltas to it once per occurrence.
\<close>

fun effectStep ::
  "creature \<times> effect option list \<Rightarrow> effect option \<Rightarrow> creature \<times> effect option list" where
  "effectStep (u, remainingEffects) None = (u, remainingEffects)"
| "effectStep (u, remainingEffects) (Some e) =
     (let u1 = (if healthEffect e \<noteq> 0
                then u\<lparr>currentHealth :=
                       min (maxHealth (battleStats u))
                           (max 0 (currentHealth u + healthEffect e))\<rparr>
                else u);
          u2 = u1\<lparr>battleStats := applyStatEffect (statEffect e) (battleStats u1)\<rparr>;
          updatedEffect = e\<lparr>duration := duration e - 1\<rparr>
      in (u2, if 0 < duration updatedEffect then remainingEffects @ [Some updatedEffect]
              else remainingEffects))"

text \<open>The callback of \<open>state.playerField.map\<close> and of \<open>state.enemyField.map\<close>.\<close>

definition processCreature :: "creature \<Rightarrow> creature" where
  "processCreature c =
     (case foldl effectStep (c, []) (activeEffects c) of
        (u, remainingEffects) \<Rightarrow> u\<lparr>activeEffects := remainingEffects, isDefending := False\<rparr>)"

definition on_APPLY_ONGOING_EFFECTS ::
  "battle_state \<Rightarrow> creature list option \<Rightarrow> creature list option \<Rightarrow> battle_state" where
  "on_APPLY_ONGOING_EFFECTS s updatedPlayerField updatedEnemyField =
     (let processedPlayerField = map processCreature (playerField s);
          processedEnemyField = map processCreature (enemyField s)
      in s\<lparr>playerField :=
             (case updatedPlayerField of Some f \<Rightarrow> f | None \<Rightarrow> alive processedPlayerField),
           enemyField :=
             (case updatedEnemyField of Some f \<Rightarrow> f | None \<Rightarrow> alive processedEnemyField)\<rparr>)"

text \<open>\<open>COMBO_BONUS\<close>\<close>

definition comboBoost :: "creature \<Rightarrow> creature" where
  "comboBoost c =
     c\<lparr>battleStats := (battleStats c)
         \<lparr>physicalAttack := physicalAttack (battleStats c) + 2,
          magicalAttack := magicalAttack (battleStats c) + 2\<rparr>\<rparr>"

definition on_COMBO_BONUS :: "battle_state \<Rightarrow> string \<Rightarrow> battle_state" where
  "on_COMBO_BONUS s who =
     (let comboLevel = (if who = ''player'' then player (consecutiveActions s)
                        else enemy (consecutiveActions s))
      in if 3 \<le> comboLevel then
           (if who = ''player'' then s\<lparr>playerField := map comboBoost (playerField s)\<rparr>
            else s\<lparr>enemyField := map comboBoost (enemyField s)\<rparr>)
         else s)"

text \<open>
  \<open>EXECUTE_AI_ACTION\<close>, branch \<open>useSpell\<close>: the two \<open>map\<close> callbacks read
  \<open>spellResult.updatedCaster.id\<close> and \<open>spellResult.updatedTarget.id\<close> with no test
  that the properties exist.
\<close>

fun spellMapEnemy :: "spell_result \<Rightarrow> creature list \<Rightarrow> fault + creature list" where
  "spellMapEnemy r [] = Inr []"
| "spellMapEnemy r (c # cs) =
     (case updatedCaster r of
        None \<Rightarrow> Inl TypeError
      | Some caster \<Rightarrow>
          if creature_id c = creature_id caster then
            (case spellMapEnemy r cs of Inl e \<Rightarrow> Inl e | Inr ys \<Rightarrow> Inr (caster # ys))
          else
            (case updatedTarget r of
               None \<Rightarrow> Inl TypeError
             | Some target \<Rightarrow>
                 (case spellMapEnemy r cs of
                    Inl e \<Rightarrow> Inl e
                  | Inr ys \<Rightarrow>
                      Inr ((if creature_id c = creature_id target then target else c) # ys))))"

definition spellMapPlayer :: "spell_result \<Rightarrow> creature list \<Rightarrow> fault + creature list" where
  "spellMapPlayer r xs =
     (if xs = [] then Inr []
      else case updatedTarget r of
             None \<Rightarrow> Inl TypeError
           | Some target \<Rightarrow> Inr (replaceById target xs))"

text \<open>
  \<open>EXECUTE_AI_ACTION\<close>. The source works on a shallow copy of the state and returns
  it; \<open>break\<close> out of the inner \<open>switch\<close> returns the copy as it stands. The
  increments of \<open>consecutiveActions.enemy\<close> and \<open>energyMomentum.enemy\<close> are made in
  place, on objects the copy shares with the input state; the model gives the state that
  is returned.
\<close>

definition on_EXECUTE_AI_ACTION ::
  "collaborators \<Rightarrow> battle_state \<Rightarrow> ai_action \<Rightarrow> fault + battle_state" where
  "on_EXECUTE_AI_ACTION env s a =
     (if ai_type a = ''deploy'' then
        (case ai_creature a of
           None \<Rightarrow> Inr s
         | Some c \<Rightarrow>
             (let deployCost = jsOr (ai_energyCost a) 3 in
              if enemyEnergy s < deployCost then Inr s
              else if someId c (enemyField s) then Inr s
              else Inr (s\<lparr>enemyHand := withoutId c (enemyHand s),
                          enemyField := enemyField s @ [c],
                          enemyEnergy := max 0 (enemyEnergy s - deployCost),
                          consecutiveActions := (consecutiveActions s)
                            \<lparr>enemy := enemy (consecutiveActions s) + 1\<rparr>,
                          energyMomentum := (energyMomentum s)
                            \<lparr>enemy := enemy (energyMomentum s) + deployCost\<rparr>\<rparr>)))
      else if ai_type a = ''attack'' then
        (case (ai_attacker a, ai_target a) of
           (Some attacker, Some target) \<Rightarrow>
             (let attackCost = jsOr (ai_energyCost a) 2 in
              if enemyEnergy s < attackCost then Inr s
              else
                (let attackResult = processAttack env attacker target in
                 Inr (s\<lparr>enemyEnergy := max 0 (enemyEnergy s - attackCost),
                        consecutiveActions := (consecutiveActions s)
                          \<lparr>enemy := enemy (consecutiveActions s) + 1\<rparr>,
                        energyMomentum := (energyMomentum s)
                          \<lparr>enemy := enemy (energyMomentum s) + attackCost\<rparr>,
                        playerField :=
                          alive (replaceById (updatedDefender attackResult) (playerField s)),
                        enemyField :=
                          replaceById (updatedAttacker attackResult) (enemyField s)\<rparr>)))
         | _ \<Rightarrow> Inr s)
      else if ai_type a = ''defend'' then
        (case ai_creature a of
           None \<Rightarrow> Inr s
         | Some c \<Rightarrow>
             (let defendCost = jsOr (ai_energyCost a) 1 in
              if enemyEnergy s < defendCost then Inr s
              else
                (let updatedDefender = defendCreature env c (Some (difficulty s)) in
                 Inr (s\<lparr>enemyEnergy := max 0 (enemyEnergy s - defendCost),
                        consecutiveActions := (consecutiveActions s)
                          \<lparr>enemy := enemy (consecutiveActions s) + 1\<rparr>,
                        enemyField := replaceById updatedDefender (enemyField s)\<rparr>))))
      else if ai_type a = ''useTool'' then
        (case (ai_tool a, ai_target a) of
           (Some usedTool, Some target) \<Rightarrow>
             (case applyTool env target usedTool (difficulty s) of
                None \<Rightarrow> Inr s
              | Some result \<Rightarrow>
                  (case updatedCreature result of
                     None \<Rightarrow> Inr s
                   | Some u \<Rightarrow>
                       (let isEnemyTarget = someId target (enemyField s);
                            s1 = (if isEnemyTarget
                                  then s\<lparr>enemyField := replaceById u (enemyField s)\<rparr>
                                  else s\<lparr>playerField := replaceById u (playerField s)\<rparr>)
                        in Inr (s1\<lparr>enemyTools :=
                                     filter (\<lambda>t. tool_id t \<noteq> tool_id usedTool) (enemyTools s),
                                   consecutiveActions := (consecutiveActions s)
                                     \<lparr>enemy := enemy (consecutiveActions s) + 1\<rparr>\<rparr>))))
         | _ \<Rightarrow> Inr s)
      else if ai_type a = ''useSpell'' then
        (case (ai_spell a, ai_caster a, ai_target a) of
           (Some sp, Some caster, Some target) \<Rightarrow>
             (let spellCost = jsOr (ai_energyCost a) SPELL_ENERGY_COST in
              if enemyEnergy s < spellCost then Inr s
              else
                (case applySpell env caster target sp (difficulty s) of
                   None \<Rightarrow> Inr s
                 | Some spellResult \<Rightarrow>
                     (case spellMapEnemy spellResult (enemyField s) of
                        Inl e \<Rightarrow> Inl e
                      | Inr newEnemyField \<Rightarrow>
                          (case spellMapPlayer spellResult (playerField s) of
                             Inl e \<Rightarrow> Inl e
                           | Inr newPlayerField \<Rightarrow>
                               Inr (s\<lparr>enemyEnergy := max 0 (enemyEnergy s - spellCost),
                                      consecutiveActions := (consecutiveActions s)
                                        \<lparr>enemy := enemy (consecutiveActions s) + 1\<rparr>,
                                      energyMomentum := (energyMomentum s)
                                        \<lparr>enemy := enemy (energyMomentum s) + spellCost\<rparr>,
                                      enemyField := alive newEnemyField,
                                      playerField := alive newPlayerField,
                                      enemySpells :=
                                        filter (\<lambda>x. spell_id x \<noteq> spell_id sp)
                                          (enemySpells s)\<rparr>)))))
         | _ \<Rightarrow> Inr s)
      else Inr s)"

text \<open>
  One iteration of the loop of \<open>EXECUTE_AI_ACTION_SEQUENCE\<close>; \<open>continue\<close> leaves the
  state as it is. The energy test uses \<open>aiAction.energyCost || 0\<close>, the subtraction
  uses \<open>aiAction.energyCost\<close> itself: with the cost absent the source stores
  \<open>Math.max(0, energy - undefined)\<close>, which is \<open>NaN\<close>. With the creature of a
  \<open>deploy\<close> absent, \<open>aiAction.creature.id\<close> raises as soon as a callback runs (the
  enemy field or hand is not empty); otherwise \<open>undefined\<close> is appended to the field.
  The collaborators are defined on creatures: a call with an absent argument is
  reported as \<open>TypeError\<close>. In the source the loop goes on after it has stored
  \<open>NaN\<close> or \<open>undefined\<close> and returns normally; the model stops at that step with
  \<open>CorruptState\<close>, so it describes the loop exactly on the descriptors that carry
  what their branch reads (\<open>descriptorComplete\<close> below), where neither value arises.
\<close>

definition aiSequenceStep ::
  "collaborators \<Rightarrow> battle_state \<Rightarrow> ai_action \<Rightarrow> fault + battle_state" where
  "aiSequenceStep env s a =
     (let actionCost = jsOr (ai_energyCost a) 0 in
      if enemyEnergy s < actionCost then Inr s
      else if ai_type a = ''deploy'' then
        (case ai_creature a of
           None \<Rightarrow>
             (if enemyField s \<noteq> [] \<or> enemyHand s \<noteq> [] then Inl TypeError
              else Inl CorruptState)
         | Some c \<Rightarrow>
             if someId c (enemyField s) then Inr s
             else
               (case ai_energyCost a of
                  None \<Rightarrow> Inl CorruptState
                | Some cost \<Rightarrow>
                    Inr (s\<lparr>enemyHand := withoutId c (enemyHand s),
                           enemyField := enemyField s @ [c],
                           enemyEnergy := max 0 (enemyEnergy s - cost)\<rparr>)))
      else if ai_type a = ''attack'' then
        (case (ai_attacker a, ai_target a) of
           (Some attacker, Some target) \<Rightarrow>
             (let attackResult = processAttack env attacker target in
              case ai_energyCost a of
                None \<Rightarrow> Inl CorruptState
              | Some cost \<Rightarrow>
                  Inr (s\<lparr>enemyEnergy := max 0 (enemyEnergy s - cost),
                         playerField :=
                           alive (replaceById (updatedDefender attackResult) (playerField s)),
                         enemyField :=
                           replaceById (updatedAttacker attackResult) (enemyField s)\<rparr>))
         | _ \<Rightarrow> Inl TypeError)
      else if ai_type a = ''defend'' then
        (case ai_creature a of
           None \<Rightarrow> Inl TypeError
         | Some c \<Rightarrow>
             (let updatedDefender = defendCreature env c None in
              case ai_energyCost a of
                None \<Rightarrow> Inl CorruptState
              | Some cost \<Rightarrow>
                  Inr (s\<lparr>enemyEnergy := max 0 (enemyEnergy s - cost),
                         enemyField := replaceById updatedDefender (enemyField s)\<rparr>)))
      else Inr s)"

text \<open>The \<open>for ... of\<close> loop over \<open>action.actionSequence\<close>.\<close>

fun on_EXECUTE_AI_ACTION_SEQUENCE ::
  "collaborators \<Rightarrow> battle_state \<Rightarrow> ai_action list \<Rightarrow> fault + battle_state" where
  "on_EXECUTE_AI_ACTION_SEQUENCE env newState [] = Inr newState"
| "on_EXECUTE_AI_ACTION_SEQUENCE env newState (aiAction # rest) =
     (case aiSequenceStep env newState aiAction of
        Inl e \<Rightarrow> Inl e
      | Inr s' \<Rightarrow> on_EXECUTE_AI_ACTION_SEQUENCE env s' rest)"

subsection \<open>The reducer\<close>

fun battleReducer :: "collaborators \<Rightarrow> battle_state \<Rightarrow> action \<Rightarrow> fault + battle_state" where
  "battleReducer env s (START_BATTLE a) = Inr (on_START_BATTLE s a)"
| "battleReducer env s (DEPLOY_CREATURE c ec) = Inr (on_DEPLOY_CREATURE s c ec)"
| "battleReducer env s (ENEMY_DEPLOY_CREATURE c ec) = Inr (on_ENEMY_DEPLOY_CREATURE s c ec)"
| "battleReducer env s (UPDATE_CREATURE isPlayer c) = Inr (on_UPDATE_CREATURE s isPlayer c)"
| "battleReducer env s (ATTACK attackResult cost) = Inr (on_ATTACK s attackResult cost)"
| "battleReducer env s (USE_TOOL result usedTool isPlayerTool isEnemyTool) =
     on_USE_TOOL s result usedTool isPlayerTool isEnemyTool"
| "battleReducer env s (USE_SPELL spellResult sp ec isEnemySpell) =
     Inr (on_USE_SPELL s spellResult sp ec isEnemySpell)"
| "battleReducer env s (DEFEND u) = Inr (on_DEFEND s u)"
| "battleReducer env s (DRAW_CARD who) = Inr (on_DRAW_CARD s who)"
| "battleReducer env s (REGENERATE_ENERGY playerRegen enemyRegen) =
     Inr (on_REGENERATE_ENERGY s playerRegen enemyRegen)"
| "battleReducer env s APPLY_ENERGY_DECAY = Inr (on_APPLY_ENERGY_DECAY s)"
| "battleReducer env s (SET_ACTIVE_PLAYER who) = Inr (on_SET_ACTIVE_PLAYER s who)"
| "battleReducer env s INCREMENT_TURN = Inr (on_INCREMENT_TURN s)"
| "battleReducer env s (SET_GAME_STATE g) = Inr (on_SET_GAME_STATE s g)"
| "battleReducer env s (APPLY_ONGOING_EFFECTS updatedPlayerField updatedEnemyField) =
     Inr (on_APPLY_ONGOING_EFFECTS s updatedPlayerField updatedEnemyField)"
| "battleReducer env s (ADD_LOG m) = Inr (on_ADD_LOG s m)"
| "battleReducer env s (SPEND_ENERGY who amount) = Inr (on_SPEND_ENERGY s who amount)"
| "battleReducer env s (EXECUTE_AI_ACTION a) = on_EXECUTE_AI_ACTION env s a"
| "battleReducer env s (EXECUTE_AI_ACTION_SEQUENCE actionSequence) =
     on_EXECUTE_AI_ACTION_SEQUENCE env s actionSequence"
| "battleReducer env s (COMBO_BONUS who) = Inr (on_COMBO_BONUS s who)"
| "battleReducer env s (UNRECOGNIZED t) = Inr s"

text \<open>The state \<open>useReducer\<close> starts from.\<close>

definition initialState :: battle_state where
  "initialState =
     \<lparr>gameState = ''setup'', turn = 1, activePlayer = ''player'', difficulty = ''easy'',
      playerDeck = [], playerHand = [], playerField = [], playerEnergy = 10,
      playerTools = [], playerSpells = [],
      enemyDeck = [], enemyHand = [], enemyField = [], enemyEnergy = 10,
      enemyTools = [], enemySpells = [],
      battleLog = [],
      consecutiveActions = \<lparr>player = 0, enemy = 0\<rparr>,
      energyMomentum = \<lparr>player = 0, enemy = 0\<rparr>\<rparr>"

subsection \<open>Orchestrator helpers\<close>

text \<open>
  \<open>applyEnergyDecay\<close>: the decay action is dispatched when either side holds more than
  10 energy. The energies the callback reads are those of the state it was rendered
  with; with all delays collapsed that is the current state.
\<close>

definition applyEnergyDecay :: "collaborators \<Rightarrow> battle_state \<Rightarrow> fault + battle_state" where
  "applyEnergyDecay env s =
     (if 10 < playerEnergy s \<or> 10 < enemyEnergy s then battleReducer env s APPLY_ENERGY_DECAY
      else Inr s)"

subsection \<open>Sample data for the concrete instances\<close>

definition sampleStats :: battle_stats where
  "sampleStats =
     \<lparr>maxHealth = 30, physicalAttack = 7, magicalAttack = 4, energyCost = 5,
      otherStats = [(''initiative'', 3)]\<rparr>"

definition sampleCreature :: "string \<Rightarrow> int \<Rightarrow> creature" where
  "sampleCreature i h =
     \<lparr>creature_id = i, species_name = ''Bullx'', battleStats = sampleStats,
      currentHealth = h, activeEffects = [], isDefending = False\<rparr>"

text \<open>
  Stand-ins for the collaborators: an attack that deals the attacker's physical attack,
  a defence that raises the flag, a tool that heals 10, a spell that deals the caster's
  magical attack.
\<close>

definition sampleCollaborators :: collaborators where
  "sampleCollaborators =
     \<lparr>processAttack = (\<lambda>a d.
        \<lparr>updatedAttacker = a,
         updatedDefender =
           d\<lparr>currentHealth := max 0 (currentHealth d - physicalAttack (battleStats a))\<rparr>\<rparr>),
      defendCreature = (\<lambda>c _. c\<lparr>isDefending := True\<rparr>),
      applyTool = (\<lambda>c t _.
        Some \<lparr>updatedCreature =
          Some (c\<lparr>currentHealth := min (maxHealth (battleStats c)) (currentHealth c + 10)\<rparr>)\<rparr>),
      applySpell = (\<lambda>c t sp _.
        Some \<lparr>updatedCaster = Some c,
              updatedTarget =
                Some (t\<lparr>currentHealth :=
                  max 0 (currentHealth t - magicalAttack (battleStats c))\<rparr>)\<rparr>)\<rparr>"

definition sampleTool :: tool where
  "sampleTool = \<lparr>tool_id = ''t1'', tool_name = ''Potion''\<rparr>"

text \<open>An effect that lasts one more tick, deals 5 damage and raises physical attack by 3.\<close>

definition sampleEffect :: effect where
  "sampleEffect =
     \<lparr>effect_name = ''Venom'', duration = 1, healthEffect = - 5,
      statEffect = [(''physicalAttack'', 3)]\<rparr>"

definition sampleStart :: start_battle where
  "sampleStart =
     \<lparr>sb_playerDeck = [sampleCreature ''p2'' 30],
      sb_playerHand = [sampleCreature ''p1'' 30],
      sb_playerTools = [sampleTool],
      sb_playerSpells = [],
      sb_enemyDeck = [],
      sb_enemyHand = [sampleCreature ''e1'' 30, sampleCreature ''e2'' 30,
                      sampleCreature ''e3'' 30, sampleCreature ''e4'' 30,
                      sampleCreature ''e5'' 30],
      sb_enemyTools = None,
      sb_enemySpells = None,
      sb_difficulty = ''easy''\<rparr>"

subsection \<open>Sequences of dispatches and the states they reach\<close>

text \<open>Dispatching a list of actions in order; an exception ends the run.\<close>

fun dispatchAll :: "collaborators \<Rightarrow> battle_state \<Rightarrow> action list \<Rightarrow> fault + battle_state" where
  "dispatchAll env s [] = Inr s"
| "dispatchAll env s (a # as) =
     (case battleReducer env s a of Inl e \<Rightarrow> Inl e | Inr s' \<Rightarrow> dispatchAll env s' as)"

text \<open>
  A descriptor of an AI sequence carries what its branch of the loop reads: a
  \<open>deploy\<close> its creature and its cost, an \<open>attack\<close> its attacker, its target and
  its cost, a \<open>defend\<close> its creature and its cost. On such descriptors the loop
  neither raises nor stores \<open>NaN\<close> or \<open>undefined\<close>.
\<close>

fun present :: "'a option \<Rightarrow> bool" where
  "present None = False"
| "present (Some x) = True"

definition descriptorComplete :: "ai_action \<Rightarrow> bool" where
  "descriptorComplete a =
     (if ai_type a = ''deploy'' then present (ai_creature a) \<and> present (ai_energyCost a)
      else if ai_type a = ''attack'' then
        present (ai_attacker a) \<and> present (ai_target a) \<and> present (ai_energyCost a)
      else if ai_type a = ''defend'' then present (ai_creature a) \<and> present (ai_energyCost a)
      else True)"

text \<open>
  The amounts an action carries are non-negative: the cost a deployment charges, the
  cost of an attack or a spell, the amount spent, the two regeneration amounts and the
  cost of an AI action descriptor; and the descriptors of an AI sequence are complete.
  The reducer itself tests neither.
\<close>

fun nonnegCost :: "int option \<Rightarrow> bool" where
  "nonnegCost None = True"
| "nonnegCost (Some n) = (0 \<le> n)"

fun amountsOk :: "action \<Rightarrow> bool" where
  "amountsOk (DEPLOY_CREATURE c ec) = (0 \<le> deployEnergyCost c ec)"
| "amountsOk (ENEMY_DEPLOY_CREATURE c ec) = (0 \<le> deployEnergyCost c ec)"
| "amountsOk (ATTACK attackResult cost) = (0 \<le> cost)"
| "amountsOk (USE_SPELL spellResult sp ec isEnemySpell) = nonnegCost ec"
| "amountsOk (REGENERATE_ENERGY playerRegen enemyRegen) = (0 \<le> playerRegen \<and> 0 \<le> enemyRegen)"
| "amountsOk (SPEND_ENERGY who amount) = (0 \<le> amount)"
| "amountsOk (EXECUTE_AI_ACTION a) = nonnegCost (ai_energyCost a)"
| "amountsOk (EXECUTE_AI_ACTION_SEQUENCE actionSequence) =
     list_all (\<lambda>a. descriptorComplete a \<and> nonnegCost (ai_energyCost a)) actionSequence"
| "amountsOk _ = True"

text \<open>
  The battle states reachable from the initial state of \<open>useReducer\<close> by dispatching
  such actions. A dispatch that raises reaches no state.
\<close>

inductive reachable :: "collaborators \<Rightarrow> battle_state \<Rightarrow> bool" for env :: collaborators where
  initial: "reachable env initialState"
| dispatch: "reachable env s \<Longrightarrow> amountsOk a \<Longrightarrow> battleReducer env s a = Inr s'
             \<Longrightarrow> reachable env s'"

definition energyOk :: "battle_state \<Rightarrow> bool" where
  "energyOk s =
     (0 \<le> playerEnergy s \<and> playerEnergy s \<le> MAX_ENERGY
      \<and> 0 \<le> enemyEnergy s \<and> enemyEnergy s \<le> MAX_ENERGY)"

definition momentumOk :: "battle_state \<Rightarrow> bool" where
  "momentumOk s = (0 \<le> player (energyMomentum s) \<and> 0 \<le> enemy (energyMomentum s))"

text \<open>The field predicate: at most 4 creatures, each with \<open>currentHealth > 0\<close>.\<close>

definition fieldOk :: "creature list \<Rightarrow> bool" where
  "fieldOk f = (length f \<le> 4 \<and> list_all (\<lambda>c. 0 < currentHealth c) f)"

definition fieldsOk :: "battle_state \<Rightarrow> bool" where
  "fieldsOk s = (fieldOk (playerField s) \<and> fieldOk (enemyField s))"









subsection \<open>The sequence of AI actions as the specification words it\<close>

text \<open>
  The specification describes \<open>ExecuteAIActionSequence\<close> as a fold of the descriptors
  through the logic of the corresponding player-facing reducer actions, streak and
  momentum included, skipping a step whose precondition fails. \<open>spec_aiSequence\<close>
  follows these words: each descriptor becomes the reducer action of its type (the
  ones \<open>executeSingleAIAction\<close> dispatches), and a step that has no such action or
  that the reducer rejects leaves the state as it is.
\<close>

definition spec_playerFacingAction ::
  "collaborators \<Rightarrow> battle_state \<Rightarrow> ai_action \<Rightarrow> action option" where
  "spec_playerFacingAction env s a =
     (if ai_type a = ''deploy'' then
        (case ai_creature a of
           None \<Rightarrow> None
         | Some c \<Rightarrow> Some (ENEMY_DEPLOY_CREATURE c (ai_energyCost a)))
      else if ai_type a = ''attack'' then
        (case (ai_attacker a, ai_target a) of
           (Some attacker, Some target) \<Rightarrow>
             Some (ATTACK (processAttack env attacker target)
                     (jsOr (ai_energyCost a) ATTACK_ENERGY_COST))
         | _ \<Rightarrow> None)
      else if ai_type a = ''defend'' then
        (case ai_creature a of
           None \<Rightarrow> None
         | Some c \<Rightarrow> Some (DEFEND (defendCreature env c (Some (difficulty s)))))
      else if ai_type a = ''useTool'' then
        (case (ai_tool a, ai_target a) of
           (Some usedTool, Some target) \<Rightarrow>
             Some (USE_TOOL (applyTool env target usedTool (difficulty s)) usedTool False True)
         | _ \<Rightarrow> None)
      else if ai_type a = ''useSpell'' then
        (case (ai_spell a, ai_caster a, ai_target a) of
           (Some sp, Some caster, Some target) \<Rightarrow>
             Some (USE_SPELL (applySpell env caster target sp (difficulty s)) sp
                     (Some (jsOr (ai_energyCost a) SPELL_ENERGY_COST)) True)
         | _ \<Rightarrow> None)
      else None)"

definition spec_aiStep :: "collaborators \<Rightarrow> battle_state \<Rightarrow> ai_action \<Rightarrow> battle_state" where
  "spec_aiStep env s a =
     (case spec_playerFacingAction env s a of
        None \<Rightarrow> s
      | Some act \<Rightarrow> (case battleReducer env s act of Inl e \<Rightarrow> s | Inr s' \<Rightarrow> s'))"

definition spec_aiSequence ::
  "collaborators \<Rightarrow> battle_state \<Rightarrow> ai_action list \<Rightarrow> battle_state" where
  "spec_aiSequence env s actionSequence = foldl (spec_aiStep env) s actionSequence"

text \<open>A descriptor that deploys the creature \<open>c\<close> for the cost \<open>n\<close>.\<close>

definition deployDescriptor :: "creature \<Rightarrow> int \<Rightarrow> ai_action" where
  "deployDescriptor c n =
     \<lparr>ai_type = ''deploy'', ai_creature = Some c, ai_attacker = None, ai_target = None,
      ai_tool = None, ai_spell = None, ai_caster = None, ai_energyCost = Some n\<rparr>"

subsection \<open>Concrete runs\<close>


text \<open>
  Two regenerations that run into the cap, an AI sequence that deploys \<open>e1\<close> for 5,
  then a spend that runs into the floor.
\<close>

definition boundaryRun :: "action list" where
  "boundaryRun =
     [START_BATTLE sampleStart, REGENERATE_ENERGY 3 3, REGENERATE_ENERGY 3 3,
      EXECUTE_AI_ACTION_SEQUENCE [deployDescriptor (sampleCreature ''e1'' 30) 5],
      SPEND_ENERGY ''enemy'' 20]"

definition boundaryState :: battle_state where
  "boundaryState =
     (on_START_BATTLE initialState sampleStart)
       \<lparr>playerEnergy := 15, enemyEnergy := 0,
        enemyHand := [sampleCreature ''e2'' 30, sampleCreature ''e3'' 30,
                      sampleCreature ''e4'' 30, sampleCreature ''e5'' 30],
        enemyField := [sampleCreature ''e1'' 30]\<rparr>"

text \<open>A duel: one creature a side, the enemy's with 5 health left.\<close>

definition duelState :: battle_state where
  "duelState =
     initialState\<lparr>gameState := ''battle'',
                  playerField := [sampleCreature ''p1'' 30],
                  enemyField := [sampleCreature ''e1'' 5]\<rparr>"

text \<open>A creature that carries \<open>sampleEffect\<close> and nothing else.\<close>

definition poisonedCreature :: creature where
  "poisonedCreature = (sampleCreature ''p1'' 30)\<lparr>activeEffects := [Some sampleEffect]\<rparr>"



text \<open>The state right after \<open>START_BATTLE\<close> with the sample rosters.\<close>

definition startedState :: battle_state where
  "startedState = on_START_BATTLE initialState sampleStart"

text \<open>
  The energy bounds, together with what keeps them: the momentum counters, which feed
  the regeneration bonus, never go below 0.
\<close>

definition energyInv :: "battle_state \<Rightarrow> bool" where
  "energyInv s = (energyOk s \<and> momentumOk s)"

section \<open>Properties\<close>

lemmas sample_defs = initialState_def sampleStart_def sampleCreature_def sampleStats_def
  sampleCollaborators_def sampleTool_def sampleEffect_def duelState_def poisonedCreature_def
  boundaryState_def startedState_def deployDescriptor_def

lemmas reducer_defs = on_START_BATTLE_def on_DEPLOY_CREATURE_def on_ENEMY_DEPLOY_CREATURE_def
  on_UPDATE_CREATURE_def on_REGENERATE_ENERGY_def on_SPEND_ENERGY_def on_ATTACK_def
  on_APPLY_ENERGY_DECAY_def decayOf_def on_COMBO_BONUS_def on_SET_ACTIVE_PLAYER_def
  deployEnergyCost_def withoutId_def someId_def replaceById_def alive_def comboBoost_def
  fieldsOk_def fieldOk_def MAX_ENERGY_def Let_def

subsection \<open>The field predicate\<close>




























lemma aiSequenceStep_complete:
  "descriptorComplete a \<Longrightarrow> \<exists>s'. aiSequenceStep env s a = Inr s'"
proof -
  assume c: "descriptorComplete a"
  consider (deploy) "ai_type a = ''deploy''" | (attack) "ai_type a = ''attack''"
    | (defend) "ai_type a = ''defend''"
    | (other) "ai_type a \<noteq> ''deploy''" "ai_type a \<noteq> ''attack''" "ai_type a \<noteq> ''defend''"
    by blast
  then show ?thesis
  proof cases
    case deploy
    with c obtain cr n where "ai_creature a = Some cr" "ai_energyCost a = Some n"
      by (cases "ai_creature a"; cases "ai_energyCost a") (simp_all add: descriptorComplete_def)
    with deploy show ?thesis by (simp add: aiSequenceStep_def Let_def)
  next
    case attack
    with c obtain x y n where "ai_attacker a = Some x" "ai_target a = Some y"
      "ai_energyCost a = Some n"
      by (cases "ai_attacker a"; cases "ai_target a"; cases "ai_energyCost a")
         (simp_all add: descriptorComplete_def)
    with attack show ?thesis by (simp add: aiSequenceStep_def Let_def)
  next
    case defend
    with c obtain cr n where "ai_creature a = Some cr" "ai_energyCost a = Some n"
      by (cases "ai_creature a"; cases "ai_energyCost a") (simp_all add: descriptorComplete_def)
    with defend show ?thesis by (simp add: aiSequenceStep_def Let_def)
  next
    case other
    then show ?thesis by (simp add: aiSequenceStep_def Let_def)
  qed
qed

lemma aiSequence_complete:
  "list_all descriptorComplete as \<Longrightarrow> \<exists>s'. on_EXECUTE_AI_ACTION_SEQUENCE env s as = Inr s'"
proof (induction as arbitrary: s)
  case Nil
  then show ?case by simp
next
  case (Cons a as)
  then obtain s1 where "aiSequenceStep env s a = Inr s1"
    using aiSequenceStep_complete [of a env s] by auto
  with Cons show ?case by simp
qed





subsection \<open>A malformed tool result\<close>

text \<open>
  Claim C2 says a \<open>USE_TOOL\<close> whose result is absent or lacks \<open>updatedCreature\<close>
  returns the input state and never raises. In the source the guard comes second: the
  statement before it reads \<open>action.result.updatedCreature.id\<close> for the elements of
  the player's field. So the reducer returns the input state only when the player's
  field is empty, and raises a \<open>TypeError\<close> otherwise.
\<close>

theorem use_tool_malformed_result:
  assumes "case result of None \<Rightarrow> True | Some r \<Rightarrow> updatedCreature r = None"
  shows "battleReducer env s (USE_TOOL result usedTool isPlayerTool isEnemyTool)
           = (if playerField s = [] then Inr s else Inl TypeError)"
proof (cases result)
  case None
  then show ?thesis by (simp add: on_USE_TOOL_def isPlayerToolTarget_def)
next
  case (Some r)
  with assms have "updatedCreature r = None" by simp
  with Some show ?thesis by (simp add: on_USE_TOOL_def isPlayerToolTarget_def)
qed

theorem use_tool_malformed_result_witness:
  "battleReducer sampleCollaborators duelState (USE_TOOL None sampleTool True False)
     = Inl TypeError
   \<and> battleReducer sampleCollaborators duelState
        (USE_TOOL (Some \<lparr>updatedCreature = None\<rparr>) sampleTool True False) = Inl TypeError
   \<and> battleReducer sampleCollaborators initialState (USE_TOOL None sampleTool True False)
     = Inr initialState"
  using use_tool_malformed_result [of None sampleCollaborators duelState sampleTool True False]
    use_tool_malformed_result [of "Some \<lparr>updatedCreature = None\<rparr>" sampleCollaborators
      duelState sampleTool True False]
    use_tool_malformed_result [of None sampleCollaborators initialState sampleTool True False]
  by (simp add: duelState_def initialState_def)

subsection \<open>The energy bounds\<close>

lemmas energyInv_defs = energyInv_def energyOk_def momentumOk_def MAX_ENERGY_def

lemma energyInv_START: "energyInv (on_START_BATTLE s a)"
  by (simp add: energyInv_defs on_START_BATTLE_def)

lemma energyInv_DEPLOY: "energyInv s \<Longrightarrow> 0 \<le> deployEnergyCost c ec \<Longrightarrow> energyInv (on_DEPLOY_CREATURE s c ec)"
  by (simp add: energyInv_defs on_DEPLOY_CREATURE_def Let_def)

lemma energyInv_ENEMY_DEPLOY: "energyInv s \<Longrightarrow> 0 \<le> deployEnergyCost c ec \<Longrightarrow> energyInv (on_ENEMY_DEPLOY_CREATURE s c ec)"
  by (simp add: energyInv_defs on_ENEMY_DEPLOY_CREATURE_def Let_def)

lemma energyInv_UPDATE: "energyInv s \<Longrightarrow> energyInv (on_UPDATE_CREATURE s b c)"
  by (simp add: energyInv_defs on_UPDATE_CREATURE_def)

lemma energyInv_ATTACK: "energyInv s \<Longrightarrow> 0 \<le> cost \<Longrightarrow> energyInv (on_ATTACK s r cost)"
  by (simp add: energyInv_defs on_ATTACK_def Let_def)

lemma energyInv_USE_TOOL: "energyInv s \<Longrightarrow> on_USE_TOOL s r t p e = Inr s' \<Longrightarrow> energyInv s'"
  by (simp add: on_USE_TOOL_def split: sum.splits option.splits) (auto simp: energyInv_defs)

lemma energyInv_USE_SPELL: "energyInv s \<Longrightarrow> nonnegCost ec \<Longrightarrow> energyInv (on_USE_SPELL s r sp ec e)"
proof -
  assume a: "energyInv s" "nonnegCost ec"
  then have c: "0 \<le> jsOr ec SPELL_ENERGY_COST" by (cases ec) (simp_all add: SPELL_ENERGY_COST_def)
  show ?thesis
    using a(1) c by (simp add: energyInv_defs on_USE_SPELL_def Let_def split: option.splits)
qed

lemma energyInv_DEFEND: "energyInv s \<Longrightarrow> energyInv (on_DEFEND s u)"
  by (simp add: energyInv_defs on_DEFEND_def Let_def DEFEND_ENERGY_COST_def)

lemma energyInv_DRAW: "energyInv s \<Longrightarrow> energyInv (on_DRAW_CARD s who)"
  by (simp add: energyInv_defs on_DRAW_CARD_def split: list.splits)

lemma energyInv_REGEN: "energyInv s \<Longrightarrow> 0 \<le> p \<Longrightarrow> 0 \<le> e \<Longrightarrow> energyInv (on_REGENERATE_ENERGY s p e)"
proof -
  assume a: "energyInv s" "0 \<le> p" "0 \<le> e"
  have "0 \<le> player (energyMomentum s) div 10" "0 \<le> enemy (energyMomentum s) div 10"
    using a(1) by (simp_all add: energyInv_defs pos_imp_zdiv_nonneg_iff)
  then show ?thesis using a by (simp add: energyInv_defs on_REGENERATE_ENERGY_def Let_def)
qed

lemma tenth_bounds: "0 \<le> (e::int) \<Longrightarrow> 0 \<le> e div 10 \<and> e div 10 \<le> e"
  by presburger

lemma energyInv_DECAY: "energyInv s \<Longrightarrow> energyInv (on_APPLY_ENERGY_DECAY s)"
proof -
  assume a: "energyInv s"
  have "0 \<le> playerEnergy s div 10 \<and> playerEnergy s div 10 \<le> playerEnergy s"
       "0 \<le> enemyEnergy s div 10 \<and> enemyEnergy s div 10 \<le> enemyEnergy s"
    using a by (simp_all add: energyInv_defs tenth_bounds)
  then show ?thesis using a by (simp add: energyInv_defs on_APPLY_ENERGY_DECAY_def decayOf_def Let_def)
qed

lemma energyInv_misc: "energyInv s \<Longrightarrow> energyInv (on_SET_ACTIVE_PLAYER s w)" "energyInv s \<Longrightarrow> energyInv (on_INCREMENT_TURN s)"
  "energyInv s \<Longrightarrow> energyInv (on_SET_GAME_STATE s g)" "energyInv s \<Longrightarrow> energyInv (on_ADD_LOG s m)"
  "energyInv s \<Longrightarrow> energyInv (on_APPLY_ONGOING_EFFECTS s f1 f2)" "energyInv s \<Longrightarrow> energyInv (on_COMBO_BONUS s w)"
  by (simp_all add: energyInv_defs on_SET_ACTIVE_PLAYER_def on_INCREMENT_TURN_def on_SET_GAME_STATE_def
      on_ADD_LOG_def on_APPLY_ONGOING_EFFECTS_def on_COMBO_BONUS_def Let_def)

lemma energyInv_SPEND: "energyInv s \<Longrightarrow> 0 \<le> amount \<Longrightarrow> energyInv (on_SPEND_ENERGY s who amount)"
  by (simp add: energyInv_defs on_SPEND_ENERGY_def)


lemma jsOr_nonneg: "nonnegCost ec \<Longrightarrow> 0 \<le> d \<Longrightarrow> 0 \<le> jsOr ec d"
  by (cases ec) simp_all

lemma energyInv_AI:
  assumes "energyInv s" and "nonnegCost (ai_energyCost a)" and "on_EXECUTE_AI_ACTION env s a = Inr s'"
  shows "energyInv s'"
proof -
  note c = jsOr_nonneg [OF assms(2)]
  have c3: "0 \<le> jsOr (ai_energyCost a) 3" and c2: "0 \<le> jsOr (ai_energyCost a) 2"
    and c1: "0 \<le> jsOr (ai_energyCost a) 1" and c4: "0 \<le> jsOr (ai_energyCost a) SPELL_ENERGY_COST"
    by (simp_all add: c SPELL_ENERGY_COST_def)
  consider (deploy) "ai_type a = ''deploy''" | (attack) "ai_type a = ''attack''"
    | (defend) "ai_type a = ''defend''" | (useTool) "ai_type a = ''useTool''"
    | (useSpell) "ai_type a = ''useSpell''"
    | (other) "ai_type a \<noteq> ''deploy''" "ai_type a \<noteq> ''attack''" "ai_type a \<noteq> ''defend''"
        "ai_type a \<noteq> ''useTool''" "ai_type a \<noteq> ''useSpell''"
    by blast
  then show ?thesis
  proof cases
    case deploy
    with assms(1,3) c3 show ?thesis
      by (auto simp: on_EXECUTE_AI_ACTION_def Let_def energyInv_defs split: option.splits if_splits)
  next
    case attack
    with assms(1,3) c2 show ?thesis
      by (auto simp: on_EXECUTE_AI_ACTION_def Let_def energyInv_defs split: option.splits if_splits)
  next
    case defend
    with assms(1,3) c1 show ?thesis
      by (auto simp: on_EXECUTE_AI_ACTION_def Let_def energyInv_defs split: option.splits if_splits)
  next
    case useTool
    with assms(1,3) show ?thesis
      by (auto simp: on_EXECUTE_AI_ACTION_def Let_def energyInv_defs split: option.splits if_splits)
  next
    case useSpell
    with assms(1,3) c4 show ?thesis
      by (auto simp: on_EXECUTE_AI_ACTION_def Let_def energyInv_defs split: option.splits if_splits sum.splits)
  next
    case other
    with assms(1,3) show ?thesis
      by (simp add: on_EXECUTE_AI_ACTION_def)
  qed
qed

lemma energyInv_seq_step:
  assumes "energyInv s" and "nonnegCost (ai_energyCost a)" and "aiSequenceStep env s a = Inr s'"
  shows "energyInv s'"
proof -
  have c: "\<And>n. ai_energyCost a = Some n \<Longrightarrow> 0 \<le> n" using assms(2) by simp
  consider (deploy) "ai_type a = ''deploy''" | (attack) "ai_type a = ''attack''"
    | (defend) "ai_type a = ''defend''"
    | (other) "ai_type a \<noteq> ''deploy''" "ai_type a \<noteq> ''attack''" "ai_type a \<noteq> ''defend''"
    by blast
  then show ?thesis
  proof cases
    case deploy
    with assms(1,3) c show ?thesis
      by (auto simp: aiSequenceStep_def Let_def energyInv_defs split: option.splits if_splits)
  next
    case attack
    with assms(1,3) c show ?thesis
      by (auto simp: aiSequenceStep_def Let_def energyInv_defs split: option.splits if_splits)
  next
    case defend
    with assms(1,3) c show ?thesis
      by (auto simp: aiSequenceStep_def Let_def energyInv_defs split: option.splits if_splits)
  next
    case other
    with assms(1,3) show ?thesis
      by (auto simp: aiSequenceStep_def Let_def split: if_splits)
  qed
qed

lemma energyInv_seq:
  "energyInv s \<Longrightarrow> list_all (\<lambda>a. descriptorComplete a \<and> nonnegCost (ai_energyCost a)) as \<Longrightarrow>
   on_EXECUTE_AI_ACTION_SEQUENCE env s as = Inr s' \<Longrightarrow> energyInv s'"
proof (induction as arbitrary: s)
  case Nil
  then show ?case by simp
next
  case (Cons a as)
  from Cons.prems(3) obtain s1 where
    s1: "aiSequenceStep env s a = Inr s1" and rest: "on_EXECUTE_AI_ACTION_SEQUENCE env s1 as = Inr s'"
    by (auto split: sum.splits)
  from Cons.prems(1,2) s1 have "energyInv s1" by (auto intro: energyInv_seq_step)
  with Cons.IH rest Cons.prems(2) show ?case by simp
qed

lemma energyInv_step: "energyInv s \<Longrightarrow> amountsOk a \<Longrightarrow> battleReducer env s a = Inr s' \<Longrightarrow> energyInv s'"
proof (cases a)
qed (auto intro: energyInv_START energyInv_DEPLOY energyInv_ENEMY_DEPLOY energyInv_UPDATE energyInv_ATTACK energyInv_USE_TOOL
       energyInv_USE_SPELL energyInv_DEFEND energyInv_DRAW energyInv_REGEN energyInv_DECAY energyInv_misc energyInv_SPEND energyInv_AI energyInv_seq)

lemma energyInv_init: "energyInv initialState"
  by (simp add: energyInv_defs initialState_def)

lemma reachable_energyInv: "reachable env s \<Longrightarrow> energyInv s"
  by (induction rule: reachable.induct) (auto intro: energyInv_init energyInv_step)

lemma reachable_dispatchAll:
  "reachable env s \<Longrightarrow> list_all amountsOk as \<Longrightarrow> dispatchAll env s as = Inr s'
   \<Longrightarrow> reachable env s'"
proof (induction as arbitrary: s)
  case Nil
  then show ?case by simp
next
  case (Cons a as)
  from Cons.prems(3) obtain s1 where
    s1: "battleReducer env s a = Inr s1" and rest: "dispatchAll env s1 as = Inr s'"
    by (auto split: sum.splits)
  from Cons.prems(1,2) s1 have "reachable env s1" by (auto intro: reachable.dispatch)
  with Cons.IH rest Cons.prems(2) show ?case by simp
qed

text \<open>
  Claim C3, as the source has it. The claim gives the bounds for every reachable state.
  The reducer caps what \<open>REGENERATE_ENERGY\<close> adds with \<open>Math.min(MAX_ENERGY, ...)\<close>
  and floors every deduction with \<open>Math.max(0, ...)\<close>, but it tests the sign of no
  amount. What holds: in every battle state reachable from the initial state by
  dispatching actions whose amounts are non-negative (the cost a deployment charges,
  the cost of an attack or of a spell, the amount spent, the two regeneration amounts,
  the \<open>energyCost\<close> of an AI descriptor) and whose AI sequences consist of complete
  descriptors, both sides' energy lies between 0 and \<open>MAX_ENERGY = 15\<close>. What the
  loop of \<open>EXECUTE_AI_ACTION_SEQUENCE\<close> does on a descriptor without \<open>energyCost\<close>
  (it stores \<open>NaN\<close>, where \<open>EXECUTE_AI_ACTION\<close> falls back on a default cost) is
  left out.
\<close>

theorem energy_within_bounds:
  "reachable env s \<Longrightarrow>
   0 \<le> playerEnergy s \<and> playerEnergy s \<le> MAX_ENERGY
   \<and> 0 \<le> enemyEnergy s \<and> enemyEnergy s \<le> MAX_ENERGY \<and> MAX_ENERGY = 15"
  using reachable_energyInv [of env s] by (simp add: energyInv_defs)

text \<open>
  After \<open>boundaryRun\<close> the player sits on the cap (10 + 3 + 3 capped at 15) and the
  enemy, who paid 5 for a deployment out of 15, on the floor (10 - 20 floored at 0).
\<close>

theorem energy_within_bounds_witness:
  "dispatchAll sampleCollaborators initialState boundaryRun = Inr boundaryState
   \<and> list_all amountsOk boundaryRun
   \<and> reachable sampleCollaborators boundaryState
   \<and> playerEnergy boundaryState = 15 \<and> enemyEnergy boundaryState = 0
   \<and> 0 \<le> playerEnergy boundaryState \<and> playerEnergy boundaryState \<le> MAX_ENERGY
   \<and> 0 \<le> enemyEnergy boundaryState \<and> enemyEnergy boundaryState \<le> MAX_ENERGY"
proof -
  have run: "dispatchAll sampleCollaborators initialState boundaryRun = Inr boundaryState"
    by (simp add: boundaryRun_def boundaryState_def sample_defs reducer_defs aiSequenceStep_def)
  have ok: "list_all amountsOk boundaryRun"
    by (simp add: boundaryRun_def deployDescriptor_def descriptorComplete_def)
  with reachable.initial have r: "reachable sampleCollaborators boundaryState"
    using run by (rule reachable_dispatchAll)
  have "playerEnergy boundaryState = 15" "enemyEnergy boundaryState = 0"
    by (simp_all add: boundaryState_def)
  with energy_within_bounds [OF r] run ok r show ?thesis by simp
qed

text \<open>
  The slip the amended claim leaves out, on a \<open>deploy\<close> descriptor without
  \<open>energyCost\<close> dispatched right after \<open>START_BATTLE\<close>: the loop of the sequence
  leaves the data model (the source stores \<open>NaN\<close> in \<open>enemyEnergy\<close>), where
  \<open>EXECUTE_AI_ACTION\<close> charges its default of 3.
\<close>

lemma costless_descriptor_in_sequence:
  "battleReducer sampleCollaborators startedState
       (EXECUTE_AI_ACTION_SEQUENCE
          [(deployDescriptor (sampleCreature ''e1'' 30) 5)\<lparr>ai_energyCost := None\<rparr>])
     = Inl CorruptState
   \<and> battleReducer sampleCollaborators startedState
       (EXECUTE_AI_ACTION ((deployDescriptor (sampleCreature ''e1'' 30) 5)\<lparr>ai_energyCost := None\<rparr>))
     = Inr (startedState\<lparr>enemyHand := [sampleCreature ''e2'' 30, sampleCreature ''e3'' 30,
                sampleCreature ''e4'' 30, sampleCreature ''e5'' 30],
              enemyField := [sampleCreature ''e1'' 30],
              enemyEnergy := 7,
              consecutiveActions := \<lparr>player = 0, enemy = 1\<rparr>,
              energyMomentum := \<lparr>player = 0, enemy = 3\<rparr>\<rparr>)"
  by (simp add: sample_defs reducer_defs aiSequenceStep_def on_EXECUTE_AI_ACTION_def)

text \<open>
  Claim C3 as stated fails. Dispatched on the initial state, where both sides hold 10,
  \<open>SPEND_ENERGY\<close> with the amount -7 takes the player to 17, above the cap, and
  \<open>REGENERATE_ENERGY\<close> with the amount -12 takes the player to -2, below 0.
\<close>

theorem energy_bounds_counterexample:
  "battleReducer sampleCollaborators initialState (SPEND_ENERGY ''player'' (- 7))
     = Inr (initialState\<lparr>playerEnergy := 17\<rparr>)
   \<and> MAX_ENERGY < playerEnergy (initialState\<lparr>playerEnergy := 17\<rparr>)
   \<and> battleReducer sampleCollaborators initialState (REGENERATE_ENERGY (- 12) 0)
     = Inr (initialState\<lparr>playerEnergy := - 2\<rparr>)
   \<and> playerEnergy (initialState\<lparr>playerEnergy := - 2\<rparr>) < 0"
  by (simp add: sample_defs reducer_defs)

subsection \<open>Deployment\<close>

lemma hand_without_one:
  "length (filter (\<lambda>x. creature_id x = creature_id c) xs) = Suc 0 \<Longrightarrow>
   Suc (length (filter (\<lambda>x. creature_id x \<noteq> creature_id c) xs)) = length xs"
  using sum_length_filter_compl [of "\<lambda>x. creature_id x = creature_id c" xs] by simp

lemma player_deploy_accepted:
  "length (filter (\<lambda>x. creature_id x = creature_id c) (playerHand s)) = 1 \<Longrightarrow>
   deployEnergyCost c ec \<le> playerEnergy s \<Longrightarrow>
   \<exists>s'. battleReducer env s (DEPLOY_CREATURE c ec) = Inr s'
      \<and> playerHand s' = filter (\<lambda>x. creature_id x \<noteq> creature_id c) (playerHand s)
      \<and> length (playerHand s') + 1 = length (playerHand s)
      \<and> playerField s' = playerField s @ [c]
      \<and> playerEnergy s' = playerEnergy s - deployEnergyCost c ec"
  by (simp add: on_DEPLOY_CREATURE_def Let_def withoutId_def hand_without_one)

lemma player_deploy_rejected:
  "playerEnergy s < deployEnergyCost c ec \<Longrightarrow> battleReducer env s (DEPLOY_CREATURE c ec) = Inr s"
  by (simp add: on_DEPLOY_CREATURE_def Let_def)

lemma enemy_deploy_accepted:
  "length (filter (\<lambda>x. creature_id x = creature_id c) (enemyHand s)) = 1 \<Longrightarrow>
   \<not> list_ex (\<lambda>x. creature_id x = creature_id c) (enemyField s) \<Longrightarrow>
   deployEnergyCost c ec \<le> enemyEnergy s \<Longrightarrow>
   \<exists>s'. battleReducer env s (ENEMY_DEPLOY_CREATURE c ec) = Inr s'
      \<and> enemyHand s' = filter (\<lambda>x. creature_id x \<noteq> creature_id c) (enemyHand s)
      \<and> length (enemyHand s') + 1 = length (enemyHand s)
      \<and> enemyField s' = enemyField s @ [c]
      \<and> enemyEnergy s' = enemyEnergy s - deployEnergyCost c ec"
  by (simp add: on_ENEMY_DEPLOY_CREATURE_def Let_def withoutId_def someId_def hand_without_one)

lemma enemy_deploy_rejected:
  "enemyEnergy s < deployEnergyCost c ec \<Longrightarrow>
   battleReducer env s (ENEMY_DEPLOY_CREATURE c ec) = Inr s"
  by (simp add: on_ENEMY_DEPLOY_CREATURE_def Let_def)

text \<open>
  Claim C4, as the source has it. The cost a deployment charges is
  \<open>deployEnergyCost\<close>: \<open>action.energyCost\<close> when present and not 0, else the
  creature's \<open>energyCost\<close> stat when not 0, else 3. When the side's energy is at least
  that cost and exactly one creature of the side's hand has the id of the deployed
  creature (and, for the enemy, none on the enemy's field has it), the deployment
  removes that creature from the hand, appends the deployed creature to the field and
  lowers the energy by exactly that cost. When the energy is below that cost the
  resulting state is the input state.
\<close>

theorem deploy_moves_one_creature:
  "(length (filter (\<lambda>x. creature_id x = creature_id c) (playerHand s)) = 1
      \<and> deployEnergyCost c ec \<le> playerEnergy s \<longrightarrow>
      (\<exists>s'. battleReducer env s (DEPLOY_CREATURE c ec) = Inr s'
         \<and> playerHand s' = filter (\<lambda>x. creature_id x \<noteq> creature_id c) (playerHand s)
         \<and> length (playerHand s') + 1 = length (playerHand s)
         \<and> playerField s' = playerField s @ [c]
         \<and> playerEnergy s' = playerEnergy s - deployEnergyCost c ec))
   \<and> (playerEnergy s < deployEnergyCost c ec \<longrightarrow>
        battleReducer env s (DEPLOY_CREATURE c ec) = Inr s)
   \<and> (length (filter (\<lambda>x. creature_id x = creature_id c) (enemyHand s)) = 1
      \<and> \<not> list_ex (\<lambda>x. creature_id x = creature_id c) (enemyField s)
      \<and> deployEnergyCost c ec \<le> enemyEnergy s \<longrightarrow>
      (\<exists>s'. battleReducer env s (ENEMY_DEPLOY_CREATURE c ec) = Inr s'
         \<and> enemyHand s' = filter (\<lambda>x. creature_id x \<noteq> creature_id c) (enemyHand s)
         \<and> length (enemyHand s') + 1 = length (enemyHand s)
         \<and> enemyField s' = enemyField s @ [c]
         \<and> enemyEnergy s' = enemyEnergy s - deployEnergyCost c ec))
   \<and> (enemyEnergy s < deployEnergyCost c ec \<longrightarrow>
        battleReducer env s (ENEMY_DEPLOY_CREATURE c ec) = Inr s)"
  using player_deploy_accepted [of c s ec env] player_deploy_rejected [of s c ec env]
    enemy_deploy_accepted [of c s ec env] enemy_deploy_rejected [of s c ec env]
  by blast

text \<open>
  From the state after \<open>START_BATTLE\<close>: the player deploys \<open>p1\<close> from a hand of one,
  the enemy deploys \<open>e1\<close> from a hand of five, each for the 5 its stats carry; with 3
  energy either deployment leaves the state alone.
\<close>

theorem deploy_moves_one_creature_witness:
  "length (filter (\<lambda>x. creature_id x = creature_id (sampleCreature ''p1'' 30))
       (playerHand startedState)) = 1
   \<and> length (filter (\<lambda>x. creature_id x = creature_id (sampleCreature ''e1'' 30))
       (enemyHand startedState)) = 1
   \<and> \<not> list_ex (\<lambda>x. creature_id x = creature_id (sampleCreature ''e1'' 30))
       (enemyField startedState)
   \<and> deployEnergyCost (sampleCreature ''p1'' 30) None = 5
   \<and> battleReducer sampleCollaborators startedState
        (DEPLOY_CREATURE (sampleCreature ''p1'' 30) None)
      = Inr (startedState\<lparr>playerHand := [], playerField := [sampleCreature ''p1'' 30],
               playerEnergy := 5,
               consecutiveActions := \<lparr>player = 1, enemy = 0\<rparr>,
               energyMomentum := \<lparr>player = 5, enemy = 0\<rparr>\<rparr>)
   \<and> battleReducer sampleCollaborators (startedState\<lparr>playerEnergy := 3\<rparr>)
        (DEPLOY_CREATURE (sampleCreature ''p1'' 30) None)
      = Inr (startedState\<lparr>playerEnergy := 3\<rparr>)
   \<and> battleReducer sampleCollaborators startedState
        (ENEMY_DEPLOY_CREATURE (sampleCreature ''e1'' 30) None)
      = Inr (startedState\<lparr>enemyHand := [sampleCreature ''e2'' 30, sampleCreature ''e3'' 30,
                 sampleCreature ''e4'' 30, sampleCreature ''e5'' 30],
               enemyField := [sampleCreature ''e1'' 30],
               enemyEnergy := 5,
               consecutiveActions := \<lparr>player = 0, enemy = 1\<rparr>,
               energyMomentum := \<lparr>player = 0, enemy = 5\<rparr>\<rparr>)
   \<and> battleReducer sampleCollaborators (startedState\<lparr>enemyEnergy := 3\<rparr>)
        (ENEMY_DEPLOY_CREATURE (sampleCreature ''e1'' 30) None)
      = Inr (startedState\<lparr>enemyEnergy := 3\<rparr>)"
  using deploy_moves_one_creature [of "sampleCreature ''p1'' 30" startedState None sampleCollaborators]
    deploy_moves_one_creature [of "sampleCreature ''e1'' 30" startedState None sampleCollaborators]
    deploy_moves_one_creature [of "sampleCreature ''p1'' 30" "startedState\<lparr>playerEnergy := 3\<rparr>"
      None sampleCollaborators]
    deploy_moves_one_creature [of "sampleCreature ''e1'' 30" "startedState\<lparr>enemyEnergy := 3\<rparr>"
      None sampleCollaborators]
  by (simp add: sample_defs reducer_defs)

text \<open>
  Claim C4 as stated fails. With 10 energy and an empty hand, deploying a creature for
  the declared cost 5 adds it to the field and removes nothing from the hand. With 3
  energy and the declared cost 0, which the energy covers, the reducer reads the 0 as
  absent, falls back on the creature's cost of 5 and rejects the deployment.
\<close>

theorem deploy_counterexample:
  "playerHand initialState = []
   \<and> (5::int) \<le> playerEnergy initialState
   \<and> battleReducer sampleCollaborators initialState
        (DEPLOY_CREATURE (sampleCreature ''p1'' 30) (Some 5))
      = Inr (initialState\<lparr>playerHand := [], playerField := [sampleCreature ''p1'' 30],
               playerEnergy := 5,
               consecutiveActions := \<lparr>player = 1, enemy = 0\<rparr>,
               energyMomentum := \<lparr>player = 5, enemy = 0\<rparr>\<rparr>)
   \<and> (0::int) \<le> playerEnergy (startedState\<lparr>playerEnergy := 3\<rparr>)
   \<and> battleReducer sampleCollaborators (startedState\<lparr>playerEnergy := 3\<rparr>)
        (DEPLOY_CREATURE (sampleCreature ''p1'' 30) (Some 0))
      = Inr (startedState\<lparr>playerEnergy := 3\<rparr>)"
  by (simp add: sample_defs reducer_defs)

subsection \<open>Energy decay\<close>

text \<open>
  Claim C5, as the source has it. The decay action subtracts \<open>floor(energy * 0.1)\<close>
  from the energy of both sides at once, floored at 0, whatever the energies are; the
  threshold of 10 is tested by the helper \<open>applyEnergyDecay\<close>, which dispatches the
  action when at least one side holds more than 10 and does nothing otherwise. A side
  with 20 ends at 18; a side with 0 to 9 is left as it is, its decay being 0; a side
  with exactly 10 ends at 9 whenever the action is dispatched.
\<close>

theorem energy_decay_both_sides:
  "(\<exists>s'. battleReducer env s APPLY_ENERGY_DECAY = Inr s'
       \<and> playerEnergy s' = max 0 (playerEnergy s - playerEnergy s div 10)
       \<and> enemyEnergy s' = max 0 (enemyEnergy s - enemyEnergy s div 10)
       \<and> s' = s\<lparr>playerEnergy := playerEnergy s', enemyEnergy := enemyEnergy s'\<rparr>
       \<and> (playerEnergy s = 20 \<longrightarrow> playerEnergy s' = 18)
       \<and> (enemyEnergy s = 20 \<longrightarrow> enemyEnergy s' = 18)
       \<and> (0 \<le> playerEnergy s \<and> playerEnergy s \<le> 9 \<longrightarrow> playerEnergy s' = playerEnergy s)
       \<and> (0 \<le> enemyEnergy s \<and> enemyEnergy s \<le> 9 \<longrightarrow> enemyEnergy s' = enemyEnergy s)
       \<and> (playerEnergy s = 10 \<longrightarrow> playerEnergy s' = 9)
       \<and> (enemyEnergy s = 10 \<longrightarrow> enemyEnergy s' = 9))
   \<and> (10 < playerEnergy s \<or> 10 < enemyEnergy s \<longrightarrow>
        applyEnergyDecay env s = battleReducer env s APPLY_ENERGY_DECAY)
   \<and> (playerEnergy s \<le> 10 \<and> enemyEnergy s \<le> 10 \<longrightarrow> applyEnergyDecay env s = Inr s)"
  by (simp add: on_APPLY_ENERGY_DECAY_def decayOf_def applyEnergyDecay_def Let_def)

theorem energy_decay_both_sides_witness:
  "applyEnergyDecay sampleCollaborators (initialState\<lparr>playerEnergy := 20, enemyEnergy := 9\<rparr>)
     = Inr (initialState\<lparr>playerEnergy := 18, enemyEnergy := 9\<rparr>)
   \<and> applyEnergyDecay sampleCollaborators (initialState\<lparr>playerEnergy := 9, enemyEnergy := 20\<rparr>)
     = Inr (initialState\<lparr>playerEnergy := 9, enemyEnergy := 18\<rparr>)
   \<and> applyEnergyDecay sampleCollaborators initialState = Inr initialState
   \<and> battleReducer sampleCollaborators initialState APPLY_ENERGY_DECAY
     = Inr (initialState\<lparr>playerEnergy := 9, enemyEnergy := 9\<rparr>)"
  using energy_decay_both_sides [of sampleCollaborators
      "initialState\<lparr>playerEnergy := 20, enemyEnergy := 9\<rparr>"]
    energy_decay_both_sides [of sampleCollaborators
      "initialState\<lparr>playerEnergy := 9, enemyEnergy := 20\<rparr>"]
    energy_decay_both_sides [of sampleCollaborators initialState]
  by (simp add: initialState_def applyEnergyDecay_def on_APPLY_ENERGY_DECAY_def decayOf_def)

text \<open>
  Claim C5 as stated fails. The player holds 12 energy and the enemy 10, which does not
  exceed 10: the decay step takes the enemy to 9.
\<close>

theorem energy_decay_counterexample:
  "enemyEnergy (initialState\<lparr>playerEnergy := 12\<rparr>) \<le> 10
   \<and> applyEnergyDecay sampleCollaborators (initialState\<lparr>playerEnergy := 12\<rparr>)
      = Inr (initialState\<lparr>playerEnergy := 11, enemyEnergy := 9\<rparr>)"
  by (simp add: initialState_def applyEnergyDecay_def on_APPLY_ENERGY_DECAY_def decayOf_def)

subsection \<open>A sequence of AI actions\<close>

text \<open>
  Claim C6 says \<open>EXECUTE_AI_ACTION_SEQUENCE\<close> gives the state that folding the
  descriptors through the player-facing actions gives, streak and momentum included.
  On a single \<open>deploy\<close> descriptor of cost 5, dispatched right after \<open>START_BATTLE\<close>,
  the reducer's loop takes the energy to 5 and puts the creature on the field but
  leaves the enemy's streak and momentum at 0, where \<open>EXECUTE_AI_ACTION\<close> on the same
  descriptor and the fold of the specification both give streak 1 and momentum 5.
\<close>

theorem ai_sequence_skips_streak_and_momentum:
  "battleReducer sampleCollaborators startedState
       (EXECUTE_AI_ACTION_SEQUENCE [deployDescriptor (sampleCreature ''e1'' 30) 5])
     = Inr (startedState\<lparr>enemyHand := [sampleCreature ''e2'' 30, sampleCreature ''e3'' 30,
                sampleCreature ''e4'' 30, sampleCreature ''e5'' 30],
              enemyField := [sampleCreature ''e1'' 30],
              enemyEnergy := 5\<rparr>)
   \<and> battleReducer sampleCollaborators startedState
       (EXECUTE_AI_ACTION (deployDescriptor (sampleCreature ''e1'' 30) 5))
     = Inr (startedState\<lparr>enemyHand := [sampleCreature ''e2'' 30, sampleCreature ''e3'' 30,
                sampleCreature ''e4'' 30, sampleCreature ''e5'' 30],
              enemyField := [sampleCreature ''e1'' 30],
              enemyEnergy := 5,
              consecutiveActions := \<lparr>player = 0, enemy = 1\<rparr>,
              energyMomentum := \<lparr>player = 0, enemy = 5\<rparr>\<rparr>)
   \<and> spec_aiSequence sampleCollaborators startedState
       [deployDescriptor (sampleCreature ''e1'' 30) 5]
     = startedState\<lparr>enemyHand := [sampleCreature ''e2'' 30, sampleCreature ''e3'' 30,
                sampleCreature ''e4'' 30, sampleCreature ''e5'' 30],
              enemyField := [sampleCreature ''e1'' 30],
              enemyEnergy := 5,
              consecutiveActions := \<lparr>player = 0, enemy = 1\<rparr>,
              energyMomentum := \<lparr>player = 0, enemy = 5\<rparr>\<rparr>
   \<and> battleReducer sampleCollaborators startedState
        (EXECUTE_AI_ACTION_SEQUENCE [deployDescriptor (sampleCreature ''e1'' 30) 5])
     \<noteq> Inr (spec_aiSequence sampleCollaborators startedState
              [deployDescriptor (sampleCreature ''e1'' 30) 5])"
  by (simp add: sample_defs reducer_defs aiSequenceStep_def on_EXECUTE_AI_ACTION_def
      spec_aiSequence_def spec_aiStep_def spec_playerFacingAction_def)

subsection \<open>Combo bonus and streak reset\<close>

text \<open>
  Claim C7. When a side's streak is at least 3, \<open>COMBO_BONUS\<close> for that side adds 2
  to the physical attack and 2 to the magical attack of every creature on that side's
  field and changes nothing else; when the streak is below 3 the state is returned as it
  is. \<open>SET_ACTIVE_PLAYER\<close> sets the active player and resets the streak of both sides
  to 0.
\<close>

theorem combo_bonus_and_streak_reset:
  "(3 \<le> player (consecutiveActions s) \<longrightarrow>
      battleReducer env s (COMBO_BONUS ''player'') =
        Inr (s\<lparr>playerField := map (\<lambda>c. c\<lparr>battleStats := (battleStats c)
               \<lparr>physicalAttack := physicalAttack (battleStats c) + 2,
                magicalAttack := magicalAttack (battleStats c) + 2\<rparr>\<rparr>) (playerField s)\<rparr>))
   \<and> (3 \<le> enemy (consecutiveActions s) \<longrightarrow>
      battleReducer env s (COMBO_BONUS ''enemy'') =
        Inr (s\<lparr>enemyField := map (\<lambda>c. c\<lparr>battleStats := (battleStats c)
               \<lparr>physicalAttack := physicalAttack (battleStats c) + 2,
                magicalAttack := magicalAttack (battleStats c) + 2\<rparr>\<rparr>) (enemyField s)\<rparr>))
   \<and> (player (consecutiveActions s) < 3 \<longrightarrow>
        battleReducer env s (COMBO_BONUS ''player'') = Inr s)
   \<and> (enemy (consecutiveActions s) < 3 \<longrightarrow>
        battleReducer env s (COMBO_BONUS ''enemy'') = Inr s)
   \<and> battleReducer env s (SET_ACTIVE_PLAYER who) =
        Inr (s\<lparr>activePlayer := who, consecutiveActions := \<lparr>player = 0, enemy = 0\<rparr>\<rparr>)"
  by (simp add: on_COMBO_BONUS_def on_SET_ACTIVE_PLAYER_def comboBoost_def)

theorem combo_bonus_and_streak_reset_witness:
  "battleReducer sampleCollaborators
       (duelState\<lparr>consecutiveActions := \<lparr>player = 3, enemy = 2\<rparr>\<rparr>) (COMBO_BONUS ''player'')
     = Inr (duelState\<lparr>consecutiveActions := \<lparr>player = 3, enemy = 2\<rparr>,
              playerField := [(sampleCreature ''p1'' 30)
                \<lparr>battleStats := sampleStats\<lparr>physicalAttack := 9, magicalAttack := 6\<rparr>\<rparr>]\<rparr>)
   \<and> battleReducer sampleCollaborators
       (duelState\<lparr>consecutiveActions := \<lparr>player = 3, enemy = 2\<rparr>\<rparr>) (COMBO_BONUS ''enemy'')
     = Inr (duelState\<lparr>consecutiveActions := \<lparr>player = 3, enemy = 2\<rparr>\<rparr>)
   \<and> battleReducer sampleCollaborators
       (duelState\<lparr>consecutiveActions := \<lparr>player = 0, enemy = 4\<rparr>\<rparr>) (COMBO_BONUS ''enemy'')
     = Inr (duelState\<lparr>consecutiveActions := \<lparr>player = 0, enemy = 4\<rparr>,
              enemyField := [(sampleCreature ''e1'' 5)
                \<lparr>battleStats := sampleStats\<lparr>physicalAttack := 9, magicalAttack := 6\<rparr>\<rparr>]\<rparr>)
   \<and> battleReducer sampleCollaborators
       (duelState\<lparr>consecutiveActions := \<lparr>player = 0, enemy = 4\<rparr>\<rparr>) (COMBO_BONUS ''player'')
     = Inr (duelState\<lparr>consecutiveActions := \<lparr>player = 0, enemy = 4\<rparr>\<rparr>)
   \<and> battleReducer sampleCollaborators
       (duelState\<lparr>consecutiveActions := \<lparr>player = 3, enemy = 2\<rparr>\<rparr>) (SET_ACTIVE_PLAYER ''enemy'')
     = Inr (duelState\<lparr>activePlayer := ''enemy''\<rparr>)"
  using combo_bonus_and_streak_reset [of "duelState\<lparr>consecutiveActions := \<lparr>player = 3, enemy = 2\<rparr>\<rparr>"
      sampleCollaborators "''enemy''"]
    combo_bonus_and_streak_reset [of "duelState\<lparr>consecutiveActions := \<lparr>player = 0, enemy = 4\<rparr>\<rparr>"
      sampleCollaborators "''enemy''"]
  by (simp add: sample_defs reducer_defs)

subsection \<open>An effect that expires\<close>







subsection \<open>Spending energy\<close>

text \<open>
  Claim C9. For every state and every non-negative amount, \<open>SPEND_ENERGY\<close> sets the
  energy of the side it names to \<open>max(0, energy - amount)\<close> and leaves every other field
  of the state as it was; spending more than the side holds gives exactly 0, never a
  negative value. The side is the player when \<open>action.player\<close> is \<open>'player'\<close> and the
  enemy for any other value.
\<close>

theorem spend_energy_floors_at_zero:
  "0 \<le> amount \<Longrightarrow>
   (\<exists>s'. battleReducer env s (SPEND_ENERGY ''player'' amount) = Inr s'
        \<and> playerEnergy s' = max 0 (playerEnergy s - amount)
        \<and> 0 \<le> playerEnergy s'
        \<and> (playerEnergy s < amount \<longrightarrow> playerEnergy s' = 0)
        \<and> s' = s\<lparr>playerEnergy := playerEnergy s'\<rparr>)
   \<and> (who \<noteq> ''player'' \<longrightarrow>
       (\<exists>s'. battleReducer env s (SPEND_ENERGY who amount) = Inr s'
            \<and> enemyEnergy s' = max 0 (enemyEnergy s - amount)
            \<and> 0 \<le> enemyEnergy s'
            \<and> (enemyEnergy s < amount \<longrightarrow> enemyEnergy s' = 0)
            \<and> s' = s\<lparr>enemyEnergy := enemyEnergy s'\<rparr>))"
  by (simp add: on_SPEND_ENERGY_def)

theorem spend_energy_floors_at_zero_witness:
  "(0::int) \<le> 12
   \<and> playerEnergy initialState < 12
   \<and> ''enemy'' \<noteq> ''player''
   \<and> battleReducer sampleCollaborators initialState (SPEND_ENERGY ''player'' 12)
       = Inr (initialState\<lparr>playerEnergy := 0\<rparr>)
   \<and> battleReducer sampleCollaborators initialState (SPEND_ENERGY ''enemy'' 12)
       = Inr (initialState\<lparr>enemyEnergy := 0\<rparr>)"
  using spend_energy_floors_at_zero [of 12 sampleCollaborators initialState "''enemy''"]
  by (simp add: initialState_def on_SPEND_ENERGY_def)

subsection \<open>Unrecognised actions\<close>

text \<open>
  Claim C10. For every state and every action whose \<open>type\<close> is none of the entries of
  \<open>ACTIONS\<close>, the reducer returns (it raises nothing) and its result is the input
  state, unchanged.
\<close>

theorem unrecognized_action_is_absorbed:
  "action_type a \<notin> set ACTIONS \<Longrightarrow> battleReducer env s a = Inr s"
  by (cases a) (simp_all add: ACTIONS_def)

theorem unrecognized_action_is_absorbed_witness:
  "action_type (UNRECOGNIZED ''RESET'') \<notin> set ACTIONS
   \<and> battleReducer sampleCollaborators initialState (UNRECOGNIZED ''RESET'') = Inr initialState"
  using unrecognized_action_is_absorbed [of "UNRECOGNIZED ''RESET''" sampleCollaborators initialState]
  by (simp add: ACTIONS_def)

end
